theory Spec2Isabelle
  imports Main "HOL-Library.Log_Nat" "HOL-Library.Sublist"
begin

section \<open>Numbers\<close>

text \<open>
  The numeric fields of the models are Django \<open>FloatField\<close>s, so the program computes with
  Python floats. A finite float is a rational number, and a float operation returns the
  exact result rounded to a float. The embedding keeps that structure: every value is a
  \<^typ>\<open>rat\<close>, and every operation of the source is the exact operation followed by a
  rounding function \<open>fl\<close>, which the functions below take as their first argument.
  Two roundings matter: \<open>binary64\<close>, round-to-nearest-even to 53 significant bits (the
  arithmetic the program runs on; the exponent range is not bounded here, so overflow to
  infinity, subnormal numbers and NaN are outside the model), and the identity (exact
  arithmetic). Theorems that do not fix \<open>fl\<close> hold for both.
\<close>

type_synonym rounding = "rat \<Rightarrow> rat"

definition round_half_even :: "rat \<Rightarrow> int" where
  "round_half_even x =
     (let f = \<lfloor>x\<rfloor>; r = x - of_int f
      in if r < 1 / 2 then f else if 1 / 2 < r then f + 1 else if even f then f else f + 1)"

definition ilog2 :: "rat \<Rightarrow> int" where
  \<comment> \<open>the exponent \<open>e\<close> with \<open>2^e \<le> |x| < 2^(e+1)\<close>, for \<open>x \<noteq> 0\<close>: one less than the number of
      bits of the integer part of \<open>|x|\<close> when \<open>|x| \<ge> 1\<close>, and otherwise minus the least \<open>c\<close>
      with \<open>1 / |x| \<le> 2^c\<close>\<close>
  "ilog2 x =
     (if 1 \<le> \<bar>x\<bar> then bitlen \<lfloor>\<bar>x\<bar>\<rfloor> - 1 else - bitlen (\<lceil>1 / \<bar>x\<bar>\<rceil> - 1))"

definition pow2 :: "int \<Rightarrow> rat" where
  "pow2 s = (if 0 \<le> s then 2 ^ nat s else 1 / 2 ^ nat (- s))"

definition binary64 :: rounding where
  "binary64 x =
     (if x = 0 then 0
      else let s = ilog2 x - 52 in of_int (round_half_even (x / pow2 s)) * pow2 s)"

definition exact :: rounding where
  "exact x = x"

datatype error = ZeroDivisionError

definition fadd :: "rounding \<Rightarrow> rat \<Rightarrow> rat \<Rightarrow> rat" where
  "fadd fl x y = fl (x + y)"

definition fmul :: "rounding \<Rightarrow> rat \<Rightarrow> rat \<Rightarrow> rat" where
  "fmul fl x y = fl (x * y)"

definition fdiv :: "rounding \<Rightarrow> rat \<Rightarrow> rat \<Rightarrow> error + rat" where
  \<comment> \<open>Python's \<open>x / y\<close> raises \<open>ZeroDivisionError\<close> when \<open>y\<close> is zero\<close>
  "fdiv fl x y = (if y = 0 then Inl ZeroDivisionError else Inr (fl (x / y)))"

definition py_round :: "rounding \<Rightarrow> rat \<Rightarrow> nat \<Rightarrow> rat" where
  \<comment> \<open>\<open>round(x, n)\<close>: the exact value of \<open>x\<close> rounded half-to-even at \<open>n\<close> decimal
      places, converted back to a float\<close>
  "py_round fl x n = fl (of_int (round_half_even (x * 10 ^ n)) / 10 ^ n)"

definition py_sum :: "rounding \<Rightarrow> rat list \<Rightarrow> rat" where
  \<comment> \<open>the builtin \<open>sum\<close>: starts at 0 and adds the items from left to right\<close>
  "py_sum fl xs = foldl (fadd fl) 0 xs"

section \<open>Data model (models.py)\<close>

text \<open>
  The model classes as records, with the fields the computations read. A foreign key is
  the referenced record itself; a reverse relation (\<open>ingredient.nutrients\<close>,
  \<open>recipe.ingredients\<close>) is the list of rows in the order the query returns them.
  \<open>name\<close> and \<open>id\<close> exist in several classes and are prefixed by the class.
\<close>

record nutrient =
  nutrient_id :: nat
  nutrient_name :: string
  unit :: string
  daily_value :: "rat option"

record ingredient_nutrient =
  inv_nutrient :: nutrient
  value_per_100g :: rat

record ingredient =
  ingredient_id :: nat
  ingredient_name :: string
  ingredient_category :: "string option"
  nutrients :: "ingredient_nutrient list"

record recipe_ingredient =
  ri_id :: nat
  ri_ingredient :: ingredient
  weight_grams :: rat

record recipe =
  recipe_name :: string
  serving_size :: rat
  serving_unit :: string
  servings_per_pack :: rat
  fssai_license :: string
  allergen_info :: string
  ingredients :: "recipe_ingredient list"

text \<open>
  One value of the dictionary \<open>calculate_nutrition\<close> returns. The keys \<open>per_serving\<close>
  and \<open>per_100g\<close> are set in the second loop only, and the checker reads
  \<open>data.get('per_100g', 0)\<close>: \<open>None\<close> is the key not being there. For \<open>percent_dv\<close>,
  \<open>None\<close> is Python's \<open>None\<close>. The dictionary is the list of its items in insertion
  order.
\<close>

record nutrition_entry =
  nutrient :: nutrient
  total_value :: rat
  per_serving :: "rat option"
  per_100g :: "rat option"
  percent_dv :: "rat option"

type_synonym nutrition = "(nat \<times> nutrition_entry) list"

definition dict_update :: "('k \<times> 'v) list \<Rightarrow> 'k \<Rightarrow> ('v \<Rightarrow> 'v) \<Rightarrow> ('k \<times> 'v) list" where
  "dict_update d k f = map (\<lambda>(k', v). if k' = k then (k', f v) else (k', v)) d"

section \<open>Recipe.calculate_nutrition\<close>

definition total_weight :: "rounding \<Rightarrow> recipe \<Rightarrow> rat" where
  "total_weight fl r = py_sum fl (map weight_grams (ingredients r))"

definition add_row :: "rounding \<Rightarrow> rat \<Rightarrow> nutrition \<Rightarrow> ingredient_nutrient \<Rightarrow> nutrition" where
  \<comment> \<open>the body of the inner loop, for a row \<open>inv\<close> (here \<open>row\<close>) of an ingredient of weight \<open>w\<close>\<close>
  "add_row fl w nutrition row =
     (let nid = nutrient_id (inv_nutrient row);
          val = fmul fl (fl (w / 100)) (value_per_100g row);
          nutrition' =
            (if map_of nutrition nid = None
             then nutrition @ [(nid, \<lparr>nutrient = inv_nutrient row, total_value = 0,
                                     per_serving = None, per_100g = None, percent_dv = None\<rparr>)]
             else nutrition)
      in dict_update nutrition' nid (\<lambda>d. d\<lparr>total_value := fadd fl (total_value d) val\<rparr>))"

definition add_ingredient :: "rounding \<Rightarrow> nutrition \<Rightarrow> recipe_ingredient \<Rightarrow> nutrition" where
  "add_ingredient fl nutrition ri =
     foldl (add_row fl (weight_grams ri)) nutrition (nutrients (ri_ingredient ri))"

definition accumulate :: "rounding \<Rightarrow> recipe \<Rightarrow> nutrition" where
  \<comment> \<open>the first loop of \<open>calculate_nutrition\<close>\<close>
  "accumulate fl r = foldl (add_ingredient fl) [] (ingredients r)"

definition truthy :: "rat option \<Rightarrow> bool" where
  \<comment> \<open>\<open>if nutrient.daily_value:\<close> a nullable float is true when it is set and not zero\<close>
  "truthy v = (case v of None \<Rightarrow> False | Some x \<Rightarrow> x \<noteq> 0)"

definition finish_entry ::
  "rounding \<Rightarrow> rat \<Rightarrow> rat \<Rightarrow> nutrition_entry \<Rightarrow> error + nutrition_entry" where
  \<comment> \<open>the body of the second loop, for the divisor \<open>total_wt\<close> and the serving size\<close>
  "finish_entry fl total_wt serving data =
     (let total = total_value data in
      case fdiv fl total total_wt of
        Inl e \<Rightarrow> Inl e
      | Inr q \<Rightarrow>
          let ps = fmul fl q serving;
              data1 = data\<lparr>per_serving := Some (py_round fl ps 2),
                            per_100g := Some (py_round fl (fmul fl q 100) 2)\<rparr>
          in (if truthy (daily_value (nutrient data))
              then (case fdiv fl ps (the (daily_value (nutrient data))) of
                      Inl e \<Rightarrow> Inl e
                    | Inr p \<Rightarrow>
                        Inr (data1\<lparr>percent_dv := Some (py_round fl (fmul fl p 100) 1),
                                    total_value := py_round fl total 2\<rparr>))
              else Inr (data1\<lparr>percent_dv := None, total_value := py_round fl total 2\<rparr>)))"

fun finish_all :: "rounding \<Rightarrow> rat \<Rightarrow> rat \<Rightarrow> nutrition \<Rightarrow> error + nutrition" where
  "finish_all fl total_wt serving [] = Inr []"
| "finish_all fl total_wt serving ((nid, data) # rest) =
     (case finish_entry fl total_wt serving data of
        Inl e \<Rightarrow> Inl e
      | Inr data' \<Rightarrow>
          (case finish_all fl total_wt serving rest of
             Inl e \<Rightarrow> Inl e
           | Inr rest' \<Rightarrow> Inr ((nid, data') # rest')))"

definition calculate_nutrition :: "rounding \<Rightarrow> recipe \<Rightarrow> error + nutrition" where
  "calculate_nutrition fl r =
     (let nutrition = accumulate fl r;
          total_wt = (if total_weight fl r = 0 then 1 else total_weight fl r)
      in finish_all fl total_wt (serving_size r) nutrition)"

section \<open>Strings\<close>

text \<open>
  A Python \<open>str\<close> is modelled as a \<^typ>\<open>string\<close> whose characters are the code points
  below 256; on these, \<open>isspace\<close> and \<open>isdigit\<close> are the tables of \<open>str.isspace\<close> and
  \<open>str.isdigit\<close>. The one literal of the checker outside that range, the check mark
  U+2713, is written as its three UTF-8 bytes. How \<open>str\<close> writes a float into a
  message (the shortest decimal that reads back as the same float) is a parameter of the
  checker, \<open>str_float\<close>.
\<close>

definition isspace :: "char \<Rightarrow> bool" where
  "isspace c = (of_char c \<in> {9, 10, 11, 12, 13, 28, 29, 30, 31, 32, 133, 160 :: nat})"

definition isdigit_char :: "char \<Rightarrow> bool" where
  "isdigit_char c = (of_char c \<in> {48, 49, 50, 51, 52, 53, 54, 55, 56, 57, 178, 179, 185 :: nat})"

definition isdigit :: "string \<Rightarrow> bool" where
  \<comment> \<open>\<open>str.isdigit\<close>: at least one character, and all of them digits\<close>
  "isdigit s = (s \<noteq> [] \<and> (\<forall>c \<in> set s. isdigit_char c))"

definition strip :: "string \<Rightarrow> string" where
  "strip s = rev (dropWhile isspace (rev (dropWhile isspace s)))"

fun str_nat :: "nat \<Rightarrow> string" where
  "str_nat n =
     (if n < 10 then [char_of (48 + n)] else str_nat (n div 10) @ [char_of (48 + n mod 10)])"

declare str_nat.simps [simp del]

fun join :: "string \<Rightarrow> string list \<Rightarrow> string" where
  "join sep [] = []"
| "join sep [x] = x"
| "join sep (x # y # ys) = x @ sep @ join sep (y # ys)"

definition format_1f :: "rat \<Rightarrow> string" where
  \<comment> \<open>the format \<open>.1f\<close>: the exact value rounded half-to-even at one decimal place\<close>
  "format_1f x =
     (let n = nat (round_half_even (\<bar>x\<bar> * 10))
      in (if x < 0 then ''-'' else []) @ str_nat (n div 10) @ ''.'' @ str_nat (n mod 10))"

section \<open>FSSAIComplianceChecker (fssai\_compliance.py)\<close>

definition MANDATORY_NUTRIENTS :: "string list" where
  "MANDATORY_NUTRIENTS =
     [''Energy'', ''Total Fat'', ''Saturated Fat'', ''Trans Fat'',
      ''Total Carbohydrate'', ''Total Sugars'', ''Added Sugars'',
      ''Protein'', ''Sodium'', ''Dietary Fibre'']"

definition HIGH_FAT_THRESHOLD :: rat where
  "HIGH_FAT_THRESHOLD = 35 / 2"

definition HIGH_SUGAR_THRESHOLD :: rat where
  "HIGH_SUGAR_THRESHOLD = 45 / 2"

definition HIGH_SODIUM_THRESHOLD :: rat where
  "HIGH_SODIUM_THRESHOLD = 600"

definition HIGH_SATURATED_FAT_THRESHOLD :: rat where
  "HIGH_SATURATED_FAT_THRESHOLD = 5"

text \<open>
  The checker object: the methods append to its three lists, so each method is a function
  from the object to the object.
\<close>

record checker =
  recipe :: recipe
  nutrition_data :: nutrition
  issues :: "string list"
  warnings :: "string list"
  info :: "string list"

definition init_checker :: "recipe \<Rightarrow> nutrition \<Rightarrow> checker" where
  "init_checker r nd = \<lparr>recipe = r, nutrition_data = nd, issues = [], warnings = [], info = []\<rparr>"

definition get_per_100g :: "nutrition_entry \<Rightarrow> rat" where
  \<comment> \<open>\<open>data.get('per_100g', 0)\<close>\<close>
  "get_per_100g data = (case per_100g data of None \<Rightarrow> 0 | Some v \<Rightarrow> v)"

definition per_100g_by_name :: "nutrition \<Rightarrow> (string \<rightharpoonup> rat)" where
  \<comment> \<open>the dictionary \<open>per_100g\<close> that \<open>_check_fop_warnings\<close> and \<open>get_fop_indicators\<close> build\<close>
  "per_100g_by_name nd =
     foldl (\<lambda>m (nid, data). m(nutrient_name (nutrient data) \<mapsto> get_per_100g data)) Map.empty nd"

definition dict_get :: "('k \<rightharpoonup> 'v) \<Rightarrow> 'k \<Rightarrow> 'v \<Rightarrow> 'v" where
  "dict_get m k d = (case m k of None \<Rightarrow> d | Some v \<Rightarrow> v)"

definition missing_nutrient_issue :: "string \<Rightarrow> string" where
  "missing_nutrient_issue mn =
     ''MISSING MANDATORY NUTRIENT: '' @ [CHR 0x27] @ mn @ [CHR 0x27] @
     '' is required by FSSAI regulations but is not present in the nutrition data.''"

definition present_names :: "nutrition \<Rightarrow> string set" where
  "present_names nd = set (map (\<lambda>(nid, data). nutrient_name (nutrient data)) nd)"

definition check_mandatory_nutrients :: "checker \<Rightarrow> checker" where
  "check_mandatory_nutrients c =
     foldl (\<lambda>c mn. if mn \<notin> present_names (nutrition_data c)
                    then c\<lparr>issues := issues c @ [missing_nutrient_issue mn]\<rparr> else c)
       c MANDATORY_NUTRIENTS"

definition serving_size_issue :: string where
  "serving_size_issue = ''SERVING SIZE: Must be declared as per FSSAI regulations.''"

definition serving_unit_issue :: string where
  "serving_unit_issue = ''SERVING UNIT: Must specify unit (g/ml) for serving size.''"

definition check_serving_size_declaration :: "checker \<Rightarrow> checker" where
  "check_serving_size_declaration c =
     (let c1 = (if serving_size (recipe c) = 0 \<or> serving_size (recipe c) \<le> 0
                then c\<lparr>issues := issues c @ [serving_size_issue]\<rparr>
                else c);
          c2 = (if serving_unit (recipe c1) = []
                then c1\<lparr>issues := issues c1 @ [serving_unit_issue]\<rparr>
                else c1)
      in if servings_per_pack (recipe c2) = 0 \<or> servings_per_pack (recipe c2) \<le> 0
         then c2\<lparr>warnings := warnings c2 @
                [''SERVINGS PER PACK: Should declare number of servings per package.'']\<rparr>
         else c2)"

definition check_fop_warnings :: "(rat \<Rightarrow> string) \<Rightarrow> checker \<Rightarrow> checker" where
  "check_fop_warnings str_float c =
     (let per = per_100g_by_name (nutrition_data c);
          total_fat = dict_get per ''Total Fat'' 0;
          sat_fat = dict_get per ''Saturated Fat'' 0;
          sugars = dict_get per ''Total Sugars'' 0;
          sodium = dict_get per ''Sodium'' 0;
          c1 = (if total_fat > HIGH_FAT_THRESHOLD
                then c\<lparr>warnings := warnings c @
                       [''HIGH IN FAT: Total fat ('' @ str_float total_fat @
                        ''g/100g) exceeds threshold (17.5g/100g). '' @
                        ''FOP warning label 'HIGH IN FAT' required.'']\<rparr>
                else c);
          c2 = (if sat_fat > HIGH_SATURATED_FAT_THRESHOLD
                then c1\<lparr>warnings := warnings c1 @
                       [''HIGH IN SATURATED FAT: ('' @ str_float sat_fat @
                        ''g/100g) exceeds threshold (5.0g/100g). '' @
                        ''FOP warning may be required.'']\<rparr>
                else c1);
          c3 = (if sugars > HIGH_SUGAR_THRESHOLD
                then c2\<lparr>warnings := warnings c2 @
                       [''HIGH IN SUGAR: Total sugars ('' @ str_float sugars @
                        ''g/100g) exceeds threshold (22.5g/100g). '' @
                        ''FOP warning label 'HIGH IN SUGAR' required.'']\<rparr>
                else c2)
      in if sodium > HIGH_SODIUM_THRESHOLD
         then c3\<lparr>warnings := warnings c3 @
                [''HIGH IN SODIUM: ('' @ str_float sodium @
                 ''mg/100g) exceeds threshold (600mg/100g). '' @
                 ''FOP warning label 'HIGH IN SODIUM/SALT' required.'']\<rparr>
         else c3)"

definition ingredient_list_issue :: string where
  "ingredient_list_issue =
     ''INGREDIENT LIST: Recipe must have at least one ingredient. '' @
     ''FSSAI requires full ingredient list in descending order of weight.''"

definition check_ingredient_list :: "checker \<Rightarrow> checker" where
  "check_ingredient_list c =
     (if ingredients (recipe c) = []
      then c\<lparr>issues := issues c @ [ingredient_list_issue]\<rparr>
      else c\<lparr>info := info c @
             [''INGREDIENT LIST: '' @ str_nat (length (ingredients (recipe c))) @
              '' ingredients declared. '' @
              ''Listed in descending order of composition by weight as required.'']\<rparr>)"

definition check_allergen_declaration :: "checker \<Rightarrow> checker" where
  "check_allergen_declaration c =
     (if allergen_info (recipe c) = []
      then c\<lparr>warnings := warnings c @
             [''ALLERGEN DECLARATION: No allergen information provided. '' @
              ''FSSAI requires declaration of common allergens (milk, nuts, '' @
              ''gluten, soy, eggs, fish, crustaceans, etc.) if present.'']\<rparr>
      else c\<lparr>info := info c @ [''ALLERGEN DECLARATION: Provided.'']\<rparr>)"

definition no_license_warning :: string where
  "no_license_warning =
     ''FSSAI LICENSE: No FSSAI license number provided. '' @
     ''Required on all packaged food products.''"

definition invalid_license_warning :: "string \<Rightarrow> string" where
  "invalid_license_warning lic =
     ''FSSAI LICENSE: '' @ [CHR 0x27] @ lic @ [CHR 0x27] @ '' may not be valid. '' @
     ''FSSAI license numbers are typically 14 digits.''"

definition valid_license_info :: "string \<Rightarrow> string" where
  "valid_license_info lic = ''FSSAI LICENSE: '' @ lic @ '' (format valid).''"

definition check_fssai_license :: "checker \<Rightarrow> checker" where
  "check_fssai_license c =
     (let lic = strip (fssai_license (recipe c))
      in if lic = []
         then c\<lparr>warnings := warnings c @ [no_license_warning]\<rparr>
         else if length lic \<noteq> 14 \<or> \<not> isdigit lic
         then c\<lparr>warnings := warnings c @ [invalid_license_warning lic]\<rparr>
         else c\<lparr>info := info c @ [valid_license_info lic]\<rparr>)"

definition check_trans_fat :: "rounding \<Rightarrow> (rat \<Rightarrow> string) \<Rightarrow> checker \<Rightarrow> checker" where
  \<comment> \<open>the loop returns at the first entry named Trans Fat; the division is reached with a
      positive divisor only\<close>
  "check_trans_fat fl str_float c =
     (case find (\<lambda>(nid, data). nutrient_name (nutrient data) = ''Trans Fat'') (nutrition_data c) of
        None \<Rightarrow> c
      | Some (nid, data) \<Rightarrow>
          let per = get_per_100g data;
              total_fat_per_100g =
                (case find (\<lambda>(nid2, data2). nutrient_name (nutrient data2) = ''Total Fat'')
                        (nutrition_data c) of
                   None \<Rightarrow> 0
                 | Some (nid2, data2) \<Rightarrow> get_per_100g data2)
          in if total_fat_per_100g > 0 \<and> per > 0
             then let trans_pct = fmul fl (fl (per / total_fat_per_100g)) 100
                  in if trans_pct > 2
                     then c\<lparr>warnings := warnings c @
                            [''TRANS FAT: '' @ str_float per @ ''g/100g ('' @
                             format_1f trans_pct @ ''% of total fat). '' @
                             ''FSSAI sets a limit on industrial trans fat.'']\<rparr>
                     else c
             else c)"

definition numbered :: "string list \<Rightarrow> string list" where
  \<comment> \<open>\<open>f"  {i}. {x}"\<close> for \<open>i, x\<close> in \<open>enumerate(xs, 1)\<close>\<close>
  "numbered xs = map (\<lambda>(i, x). ''  '' @ str_nat i @ ''. '' @ x) (zip [1 ..< Suc (length xs)] xs)"

definition passed_line :: string where
  "passed_line = [CHR 0xE2, CHR 0x9C, CHR 0x93] @ '' All FSSAI compliance checks passed.''"

definition format_lines :: "checker \<Rightarrow> string list" where
  \<comment> \<open>the list \<open>lines\<close> of \<open>_format_notes\<close>\<close>
  "format_lines c =
     (let lines1 = (if issues c \<noteq> []
                    then ''=== COMPLIANCE ISSUES (Must Fix) ==='' # numbered (issues c) else []);
          lines2 = (if warnings c \<noteq> []
                    then lines1 @ (CHR 0x0A # ''=== WARNINGS (Recommended) ==='') # numbered (warnings c)
                    else lines1);
          lines3 = (if info c \<noteq> []
                    then lines2 @ (CHR 0x0A # ''=== INFO ==='') # numbered (info c)
                    else lines2)
      in if issues c = [] \<and> warnings c = [] then lines3 @ [passed_line] else lines3)"

definition format_notes :: "checker \<Rightarrow> string" where
  "format_notes c = join [CHR 0x0A] (format_lines c)"

definition run_checks :: "rounding \<Rightarrow> (rat \<Rightarrow> string) \<Rightarrow> checker \<Rightarrow> checker" where
  \<comment> \<open>the object after the seven checks of \<open>check_all\<close>\<close>
  "run_checks fl str_float c =
     check_trans_fat fl str_float
       (check_fssai_license
         (check_allergen_declaration
           (check_ingredient_list
             (check_fop_warnings str_float
               (check_serving_size_declaration
                 (check_mandatory_nutrients
                   (c\<lparr>issues := [], warnings := [], info := []\<rparr>)))))))"

definition check_all :: "rounding \<Rightarrow> (rat \<Rightarrow> string) \<Rightarrow> checker \<Rightarrow> bool \<times> string" where
  "check_all fl str_float c =
     (let c' = run_checks fl str_float c;
          is_compliant = (length (issues c') = 0);
          notes = format_notes c'
      in (is_compliant, notes))"

record fop_indicator =
  fop_nutrient :: string
  fop_value :: rat
  fop_unit :: string
  level :: string
  color :: string

definition fop_checks :: "(string \<times> rat \<times> string) list" where
  "fop_checks =
     [(''Total Fat'', HIGH_FAT_THRESHOLD, ''g''),
      (''Saturated Fat'', HIGH_SATURATED_FAT_THRESHOLD, ''g''),
      (''Total Sugars'', HIGH_SUGAR_THRESHOLD, ''g''),
      (''Sodium'', HIGH_SODIUM_THRESHOLD, ''mg'')]"

definition fop_indicator_of ::
  "rounding \<Rightarrow> (string \<rightharpoonup> rat) \<Rightarrow> string \<times> rat \<times> string \<Rightarrow> fop_indicator" where
  \<comment> \<open>the body of the loop of \<open>get_fop_indicators\<close>\<close>
  "fop_indicator_of fl per chk =
     (case chk of (nutrient_name', threshold, unit') \<Rightarrow>
        let v = dict_get per nutrient_name' 0;
            (level', color') =
              (if v > threshold then (''HIGH'', ''red'')
               else if v > fmul fl threshold (1 / 2) then (''MEDIUM'', ''amber'')
               else (''LOW'', ''green''))
        in \<lparr>fop_nutrient = nutrient_name', fop_value = v, fop_unit = unit',
            level = level', color = color'\<rparr>)"

definition classify :: "rounding \<Rightarrow> (string \<rightharpoonup> rat) \<Rightarrow> fop_indicator list" where
  \<comment> \<open>the loop of \<open>get_fop_indicators\<close> over \<open>checks\<close>, for the dictionary \<open>per_100g\<close>\<close>
  "classify fl per = map (fop_indicator_of fl per) fop_checks"

definition get_fop_indicators :: "rounding \<Rightarrow> checker \<Rightarrow> fop_indicator list" where
  "get_fop_indicators fl c = classify fl (per_100g_by_name (nutrition_data c))"

section \<open>Attribution in api\_reformulate (api\_views.py)\<close>

text \<open>
  Steps 1 and 2 of \<open>api_reformulate\<close>: the per-ingredient contributions and the
  attribution dictionary. The view calls \<open>check_all\<close> before \<open>get_fop_indicators\<close>;
  \<open>check_all\<close> writes the three lists of the checker only, and \<open>get_fop_indicators\<close>
  reads \<open>nutrition_data\<close> only, so the call is left out here.
\<close>

record ing_nutrient =
  abs_val :: rat
  per_100g_ing :: rat
  ing_unit :: string

record ingredient_data =
  ing_id :: nat
  ing_ri_id :: nat
  ing_name :: string
  ing_category :: string
  ing_weight_grams :: rat
  ing_nutrients :: "string \<rightharpoonup> ing_nutrient"

definition abs_contribution :: "rounding \<Rightarrow> recipe_ingredient \<Rightarrow> ingredient_nutrient \<Rightarrow> rat" where
  \<comment> \<open>\<open>abs_val = (ri.weight_grams / 100.0) * inv.value_per_100g\<close>\<close>
  "abs_contribution fl ri row = fmul fl (fl (weight_grams ri / 100)) (value_per_100g row)"

definition ingredient_data_of :: "rounding \<Rightarrow> recipe_ingredient \<Rightarrow> ingredient_data" where
  "ingredient_data_of fl ri =
     \<lparr>ing_id = ingredient_id (ri_ingredient ri),
      ing_ri_id = ri_id ri,
      ing_name = ingredient_name (ri_ingredient ri),
      ing_category = (case ingredient_category (ri_ingredient ri) of None \<Rightarrow> [] | Some n \<Rightarrow> n),
      ing_weight_grams = weight_grams ri,
      ing_nutrients =
        foldl (\<lambda>m row. m(nutrient_name (inv_nutrient row) \<mapsto>
                 \<lparr>abs_val = py_round fl (abs_contribution fl ri row) 4,
                  per_100g_ing = py_round fl (value_per_100g row) 4,
                  ing_unit = unit (inv_nutrient row)\<rparr>))
          Map.empty (nutrients (ri_ingredient ri))\<rparr>"

record contributor =
  contrib_ingredient :: string
  contrib_weight_grams :: rat
  contribution_abs :: rat
  contribution_per_100g :: rat
  pct_of_total :: rat

definition contributor_of ::
  "rounding \<Rightarrow> rat \<Rightarrow> rat \<Rightarrow> ingredient_data \<Rightarrow> ing_nutrient \<Rightarrow> error + contributor" where
  \<comment> \<open>the dictionary appended to \<open>contribs\<close>, for the divisor \<open>total_weight\<close> and \<open>high['value']\<close>\<close>
  "contributor_of fl total_wt high_value ing n =
     (case fdiv fl (abs_val n) total_wt of
        Inl e \<Rightarrow> Inl e
      | Inr q \<Rightarrow>
          (case fdiv fl (abs_val n)
                  (max (fl (fmul fl high_value total_wt / 100)) (fl (1 / 1000))) of
             Inl e \<Rightarrow> Inl e
           | Inr p \<Rightarrow>
               Inr \<lparr>contrib_ingredient = ing_name ing,
                    contrib_weight_grams = ing_weight_grams ing,
                    contribution_abs = py_round fl (abs_val n) 3,
                    contribution_per_100g = py_round fl (fmul fl q 100) 3,
                    pct_of_total = py_round fl (fmul fl p 100) 1\<rparr>))"

fun contribs_loop ::
  "rounding \<Rightarrow> rat \<Rightarrow> rat \<Rightarrow> string \<Rightarrow> ingredient_data list \<Rightarrow> error + contributor list" where
  "contribs_loop fl total_wt high_value nutrient_name' [] = Inr []"
| "contribs_loop fl total_wt high_value nutrient_name' (ing # rest) =
     (case ing_nutrients ing nutrient_name' of
        None \<Rightarrow> contribs_loop fl total_wt high_value nutrient_name' rest
      | Some n \<Rightarrow>
          if abs_val n > 0
          then (case contributor_of fl total_wt high_value ing n of
                  Inl e \<Rightarrow> Inl e
                | Inr c \<Rightarrow>
                    (case contribs_loop fl total_wt high_value nutrient_name' rest of
                       Inl e \<Rightarrow> Inl e
                     | Inr cs \<Rightarrow> Inr (c # cs)))
          else contribs_loop fl total_wt high_value nutrient_name' rest)"

definition THRESHOLDS :: "string \<rightharpoonup> rat \<times> string" where
  "THRESHOLDS =
     [''Total Fat'' \<mapsto> (35 / 2, ''g''), ''Saturated Fat'' \<mapsto> (5, ''g''),
      ''Total Sugars'' \<mapsto> (45 / 2, ''g''), ''Sodium'' \<mapsto> (600, ''mg'')]"

record attribution_entry =
  current_per_100g :: rat
  threshold :: rat
  attr_unit :: string
  top_contributors :: "contributor list"

definition dict_set :: "('k \<times> 'v) list \<Rightarrow> 'k \<Rightarrow> 'v \<Rightarrow> ('k \<times> 'v) list" where
  \<comment> \<open>\<open>d[k] = v\<close> on a dictionary kept as the list of its items\<close>
  "dict_set d k v =
     (if map_of d k = None then d @ [(k, v)]
      else map (\<lambda>(k', v'). if k' = k then (k', v) else (k', v')) d)"

fun attribution_loop ::
  "rounding \<Rightarrow> rat \<Rightarrow> ingredient_data list \<Rightarrow> (string \<times> attribution_entry) list \<Rightarrow>
   fop_indicator list \<Rightarrow> error + (string \<times> attribution_entry) list" where
  "attribution_loop fl total_wt ingredient_data' attribution [] = Inr attribution"
| "attribution_loop fl total_wt ingredient_data' attribution (high # rest) =
     (case contribs_loop fl total_wt (fop_value high) (fop_nutrient high) ingredient_data' of
        Inl e \<Rightarrow> Inl e
      | Inr contribs \<Rightarrow>
          attribution_loop fl total_wt ingredient_data'
            (dict_set attribution (fop_nutrient high)
               \<lparr>current_per_100g = py_round fl (fop_value high) 3,
                threshold = (case THRESHOLDS (fop_nutrient high) of
                               None \<Rightarrow> 0 | Some (t, u) \<Rightarrow> t),
                attr_unit = fop_unit high,
                top_contributors = take 5 (sort_key (\<lambda>c. - contribution_abs c) contribs)\<rparr>)
            rest)"

definition reformulate_attribution ::
  "rounding \<Rightarrow> recipe \<Rightarrow> fop_indicator list \<Rightarrow> error + (string \<times> attribution_entry) list" where
  \<comment> \<open>from \<open>high_nutrients\<close> to \<open>attribution\<close>; with no HIGH indicator the view returns
      early, with an empty attribution\<close>
  "reformulate_attribution fl r fop =
     (let high_nutrients = filter (\<lambda>ind. level ind = ''HIGH'') fop
      in if high_nutrients = [] then Inr []
         else let total_wt = (if total_weight fl r = 0 then 1 else total_weight fl r);
                  ingredient_data' = map (ingredient_data_of fl) (ingredients r)
              in attribution_loop fl total_wt ingredient_data' [] high_nutrients)"

definition api_reformulate ::
  "rounding \<Rightarrow> recipe \<Rightarrow> error + (string \<times> attribution_entry) list" where
  "api_reformulate fl r =
     (case calculate_nutrition fl r of
        Inl e \<Rightarrow> Inl e
      | Inr nutrition \<Rightarrow>
          reformulate_attribution fl r (get_fop_indicators fl (init_checker r nutrition)))"

section \<open>Example data\<close>

definition energy :: nutrient where
  "energy = \<lparr>nutrient_id = 1, nutrient_name = ''Energy'', unit = ''kcal'', daily_value = Some 2000\<rparr>"

definition sodium :: nutrient where
  "sodium = \<lparr>nutrient_id = 9, nutrient_name = ''Sodium'', unit = ''mg'', daily_value = Some 2000\<rparr>"

definition total_sugars :: nutrient where
  "total_sugars =
     \<lparr>nutrient_id = 6, nutrient_name = ''Total Sugars'', unit = ''g'', daily_value = None\<rparr>"

definition rice :: ingredient where
  "rice = \<lparr>ingredient_id = 1, ingredient_name = ''Rice'', ingredient_category = Some ''Grains'',
            nutrients = [\<lparr>inv_nutrient = energy, value_per_100g = 345\<rparr>]\<rparr>"

definition salt :: ingredient where
  "salt = \<lparr>ingredient_id = 2, ingredient_name = ''Salt'', ingredient_category = None,
            nutrients = [\<lparr>inv_nutrient = sodium, value_per_100g = 38758\<rparr>]\<rparr>"

definition sugar :: ingredient where
  "sugar = \<lparr>ingredient_id = 3, ingredient_name = ''Sugar'', ingredient_category = None,
             nutrients = [\<lparr>inv_nutrient = energy, value_per_100g = 387\<rparr>,
                          \<lparr>inv_nutrient = total_sugars, value_per_100g = 100\<rparr>]\<rparr>"

definition rice_salt :: recipe where
  \<comment> \<open>the recipe of the scenario: 100 g of rice, 5 g of salt, serving size 100\<close>
  "rice_salt =
     \<lparr>recipe_name = ''Salted rice'', serving_size = 100, serving_unit = ''g'',
      servings_per_pack = 1, fssai_license = [], allergen_info = [],
      ingredients = [\<lparr>ri_id = 1, ri_ingredient = rice, weight_grams = 100\<rparr>,
                     \<lparr>ri_id = 2, ri_ingredient = salt, weight_grams = 5\<rparr>]\<rparr>"

definition sweet_rice :: recipe where
  "sweet_rice =
     \<lparr>recipe_name = ''Sweet rice'', serving_size = 50, serving_unit = ''g'',
      servings_per_pack = 4, fssai_license = '' 12345678901234 '', allergen_info = ''None'',
      ingredients = [\<lparr>ri_id = 3, ri_ingredient = rice, weight_grams = 150\<rparr>,
                     \<lparr>ri_id = 4, ri_ingredient = sugar, weight_grams = 50\<rparr>]\<rparr>"

definition no_ingredients :: recipe where
  "no_ingredients =
     \<lparr>recipe_name = ''Empty'', serving_size = 100, serving_unit = ''g'',
      servings_per_pack = 1, fssai_license = [], allergen_info = [], ingredients = []\<rparr>"

definition zero_weight :: recipe where
  \<comment> \<open>one ingredient row whose weight is 0, the default of the API for a missing weight\<close>
  "zero_weight =
     \<lparr>recipe_name = ''Weightless'', serving_size = 100, serving_unit = ''g'',
      servings_per_pack = 1, fssai_license = [], allergen_info = [],
      ingredients = [\<lparr>ri_id = 8, ri_ingredient = rice, weight_grams = 0\<rparr>]\<rparr>"

definition named_entry :: "nat \<Rightarrow> string \<Rightarrow> rat \<Rightarrow> nat \<times> nutrition_entry" where
  "named_entry nid nm v =
     (nid, \<lparr>nutrient = \<lparr>nutrient_id = nid, nutrient_name = nm, unit = ''g'', daily_value = None\<rparr>,
            total_value = v, per_serving = Some v, per_100g = Some v, percent_dv = None\<rparr>)"

definition seven_nutrients :: nutrition where
  \<comment> \<open>a result with every mandatory nutrient but Trans Fat, Added Sugars and Dietary Fibre\<close>
  "seven_nutrients =
     [named_entry 1 ''Energy'' 1, named_entry 2 ''Total Fat'' 1, named_entry 3 ''Saturated Fat'' 1,
      named_entry 5 ''Total Carbohydrate'' 1, named_entry 6 ''Total Sugars'' 1,
      named_entry 8 ''Protein'' 1, named_entry 9 ''Sodium'' 1]"

definition ten_nutrients :: nutrition where
  \<comment> \<open>a result with all ten mandatory nutrients, none of them above a threshold\<close>
  "ten_nutrients =
     [named_entry 1 ''Energy'' 350, named_entry 2 ''Total Fat'' 1,
      named_entry 3 ''Saturated Fat'' (1 / 2), named_entry 4 ''Trans Fat'' 0,
      named_entry 5 ''Total Carbohydrate'' 80, named_entry 6 ''Total Sugars'' 20,
      named_entry 7 ''Added Sugars'' 20, named_entry 8 ''Protein'' 7,
      named_entry 9 ''Sodium'' 5, named_entry 10 ''Dietary Fibre'' 1]"

definition scale_weights :: "rounding \<Rightarrow> rat \<Rightarrow> recipe \<Rightarrow> recipe" where
  \<comment> \<open>every \<open>weight_grams\<close> of the recipe multiplied by \<open>k\<close>\<close>
  "scale_weights fl k r =
     r\<lparr>ingredients := map (\<lambda>ri. ri\<lparr>weight_grams := fmul fl (weight_grams ri) k\<rparr>) (ingredients r)\<rparr>"

definition brine :: ingredient where
  \<comment> \<open>1.245 mg of sodium per 100 g, as a float\<close>
  "brine = \<lparr>ingredient_id = 4, ingredient_name = ''Brine'', ingredient_category = None,
             nutrients = [\<lparr>inv_nutrient = sodium, value_per_100g = binary64 (249 / 200)\<rparr>]\<rparr>"

definition thirty_grams :: recipe where
  "thirty_grams =
     \<lparr>recipe_name = ''Brine'', serving_size = 100, serving_unit = ''g'',
      servings_per_pack = 1, fssai_license = [], allergen_info = [],
      ingredients = [\<lparr>ri_id = 5, ri_ingredient = brine, weight_grams = 30\<rparr>]\<rparr>"

definition salt_a_row :: ingredient_nutrient where
  "salt_a_row = \<lparr>inv_nutrient = sodium, value_per_100g = binary64 (7000001 / 10000)\<rparr>"

definition salt_b_row :: ingredient_nutrient where
  "salt_b_row = \<lparr>inv_nutrient = sodium, value_per_100g = binary64 (7000002 / 10000)\<rparr>"

definition salt_a :: recipe_ingredient where
  "salt_a = \<lparr>ri_id = 6,
              ri_ingredient = \<lparr>ingredient_id = 5, ingredient_name = ''Salt A'',
                               ingredient_category = None, nutrients = [salt_a_row]\<rparr>,
              weight_grams = 100\<rparr>"

definition salt_b :: recipe_ingredient where
  "salt_b = \<lparr>ri_id = 7,
              ri_ingredient = \<lparr>ingredient_id = 6, ingredient_name = ''Salt B'',
                               ingredient_category = None, nutrients = [salt_b_row]\<rparr>,
              weight_grams = 100\<rparr>"

definition two_salts :: recipe where
  "two_salts =
     \<lparr>recipe_name = ''Two salts'', serving_size = 100, serving_unit = ''g'',
      servings_per_pack = 1, fssai_license = [], allergen_info = [],
      ingredients = [salt_a, salt_b]\<rparr>"

section \<open>Functions that state the claims\<close>

definition section_lines :: "string \<Rightarrow> string list \<Rightarrow> string list" where
  \<comment> \<open>a headed, numbered section: nothing for an empty list\<close>
  "section_lines header xs = (if xs = [] then [] else header # numbered xs)"

definition missing_issues :: "nutrition \<Rightarrow> string list" where
  \<comment> \<open>one issue for each mandatory name that is absent from the result, in the order of
      \<open>MANDATORY_NUTRIENTS\<close>\<close>
  "missing_issues nd =
     map missing_nutrient_issue (filter (\<lambda>mn. mn \<notin> present_names nd) MANDATORY_NUTRIENTS)"

definition nutrient_rows :: "recipe \<Rightarrow> (rat \<times> ingredient_nutrient) list" where
  \<comment> \<open>the ingredient rows of a recipe with the weight of their ingredient, in the order
      the two loops of \<open>calculate_nutrition\<close> visit them\<close>
  "nutrient_rows r =
     concat (map (\<lambda>ri. map (Pair (weight_grams ri)) (nutrients (ri_ingredient ri)))
       (ingredients r))"

definition nutrient_total :: "rounding \<Rightarrow> recipe \<Rightarrow> nat \<Rightarrow> rat" where
  \<comment> \<open>the sum over the rows of a nutrient of \<open>(weight_grams / 100) * value_per_100g\<close>\<close>
  "nutrient_total fl r nid =
     py_sum fl
       (map (\<lambda>(w, row). fmul fl (fl (w / 100)) (value_per_100g row))
         (filter (\<lambda>(w, row). nutrient_id (inv_nutrient row) = nid) (nutrient_rows r)))"

definition scaled :: "rat \<Rightarrow> nutrition \<Rightarrow> nutrition" where
  \<comment> \<open>every accumulated total multiplied by \<open>k\<close>\<close>
  "scaled k nd = map (\<lambda>(nid, d). (nid, d\<lparr>total_value := k * total_value d\<rparr>)) nd"

definition reported :: "nutrition \<Rightarrow> (nat \<times> rat option \<times> rat option \<times> rat option) list" where
  \<comment> \<open>for each nutrient of a result: \<open>per_serving\<close>, \<open>per_100g\<close> and \<open>percent_dv\<close>\<close>
  "reported nd = map (\<lambda>(nid, d). (nid, per_serving d, per_100g d, percent_dv d)) nd"

definition recorded_value :: "ingredient \<Rightarrow> string \<Rightarrow> ingredient_nutrient option" where
  \<comment> \<open>the row of an ingredient for a nutrient name (the last one, should there be several:
      the view keeps them in a dictionary keyed by the name)\<close>
  "recorded_value ing nm =
     find (\<lambda>row. nutrient_name (inv_nutrient row) = nm) (rev (nutrients ing))"

definition contributors :: "rounding \<Rightarrow> recipe_ingredient list \<Rightarrow> string \<Rightarrow> (string \<times> rat) list" where
  \<comment> \<open>in recipe order, the name and the reported contribution of each ingredient that has a
      recorded value for the nutrient and whose contribution, rounded to 4 places, is
      positive; the reported contribution is that rounded value rounded to 3 places\<close>
  "contributors fl ris nm =
     concat (map (\<lambda>ri.
        case recorded_value (ri_ingredient ri) nm of
          None \<Rightarrow> []
        | Some row \<Rightarrow>
            if 0 < py_round fl (abs_contribution fl ri row) 4
            then [(ingredient_name (ri_ingredient ri),
                   py_round fl (py_round fl (abs_contribution fl ri row) 4) 3)]
            else []) ris)"

definition name_and_contribution :: "contributor \<Rightarrow> string \<times> rat" where
  "name_and_contribution c = (contrib_ingredient c, contribution_abs c)"

definition entry_ok ::
  "rounding \<Rightarrow> recipe \<Rightarrow> fop_indicator list \<Rightarrow> string \<times> attribution_entry \<Rightarrow> bool" where
  \<comment> \<open>what holds of every item of the attribution, for the HIGH indicators \<open>highs\<close>\<close>
  "entry_ok fl r highs item =
     (case item of (nm, entry) \<Rightarrow>
        nm \<in> set (map fop_nutrient highs) \<and>
        map name_and_contribution (top_contributors entry) =
          take 5 (sort_key (\<lambda>(n, a). - a) (contributors fl (ingredients r) nm)) \<and>
        length (top_contributors entry) \<le> 5 \<and>
        sorted_wrt (\<lambda>a b. contribution_abs b \<le> contribution_abs a) (top_contributors entry))"

section \<open>Properties\<close>

subsection \<open>Evaluating the float arithmetic\<close>

lemma floor_rat_divide_numeral [simp]:
  "\<lfloor>numeral a / numeral b :: rat\<rfloor> = numeral a div numeral b"
  by (metis floor_divide_of_int_eq of_int_numeral)

lemma floor_rat_one_divide_numeral [simp]:
  "\<lfloor>1 / numeral b :: rat\<rfloor> = 1 div numeral b"
  by (metis floor_divide_of_int_eq of_int_1 of_int_numeral)

lemma floor_rat_minus_divide_numeral [simp]:
  "\<lfloor>- (numeral a / numeral b) :: rat\<rfloor> = - numeral a div numeral b"
  by (metis divide_minus_left floor_divide_of_int_eq of_int_neg_numeral of_int_numeral)

lemma floor_rat_minus_one_divide_numeral [simp]:
  "\<lfloor>- (1 / numeral b) :: rat\<rfloor> = - 1 div numeral b"
  by (metis divide_minus_left floor_divide_of_int_eq of_int_minus of_int_1 of_int_numeral)

lemma ceiling_rat_divide_numeral [simp]:
  "\<lceil>numeral a / numeral b :: rat\<rceil> = - (- numeral a div numeral b)"
  "\<lceil>1 / numeral b :: rat\<rceil> = - (- 1 div numeral b)"
  by (simp_all add: ceiling_def)

lemma binary64_eval:
  "binary64 x =
     (if x = 0 then 0
      else of_int (round_half_even (x / pow2 (ilog2 x - 52))) * pow2 (ilog2 x - 52))"
  by (simp add: binary64_def Let_def)

lemma round_half_even_eval:
  "round_half_even x =
     (if x - of_int \<lfloor>x\<rfloor> < 1 / 2 then \<lfloor>x\<rfloor>
      else if 1 / 2 < x - of_int \<lfloor>x\<rfloor> then \<lfloor>x\<rfloor> + 1
      else if even \<lfloor>x\<rfloor> then \<lfloor>x\<rfloor> else \<lfloor>x\<rfloor> + 1)"
  by (simp add: round_half_even_def Let_def)

text \<open>
  Concrete values are computed in two steps of the simplifier: the first unfolds the
  program down to the float operations (\<open>float_ops\<close>, together with \<open>Let_def\<close>), the
  second evaluates these on numerals (\<open>float_eval\<close>).
\<close>

lemmas float_ops = fadd_def fmul_def fdiv_def py_round_def py_sum_def Let_def

lemmas float_eval = binary64_eval round_half_even_eval ilog2_def pow2_def compute_bitlen

lemmas example_defs =
  energy_def sodium_def total_sugars_def rice_def salt_def sugar_def brine_def
  rice_salt_def sweet_rice_def no_ingredients_def zero_weight_def thirty_grams_def
  scale_weights_def two_salts_def salt_a_def salt_b_def salt_a_row_def salt_b_row_def

lemmas aggregator_defs =
  calculate_nutrition_def accumulate_def add_ingredient_def add_row_def dict_update_def
  finish_entry_def truthy_def total_weight_def

lemmas fop_defs =
  get_fop_indicators_def classify_def fop_checks_def fop_indicator_of_def per_100g_by_name_def
  get_per_100g_def dict_get_def init_checker_def HIGH_FAT_THRESHOLD_def
  HIGH_SATURATED_FAT_THRESHOLD_def HIGH_SUGAR_THRESHOLD_def HIGH_SODIUM_THRESHOLD_def

lemmas attribution_defs =
  reformulate_attribution_def ingredient_data_of_def contributor_of_def abs_contribution_def
  dict_set_def THRESHOLDS_def

subsection \<open>The nutrition of the example recipes, in binary64 arithmetic\<close>

lemma rice_salt_nutrition:
  "calculate_nutrition binary64 rice_salt =
     Inr [(1, \<lparr>nutrient = energy, total_value = 345,
               per_serving = Some (5780264568613765 / 17592186044416),
               per_100g = Some (5780264568613765 / 17592186044416),
               percent_dv = Some (2308094809027379 / 140737488355328)\<rparr>),
          (9, \<lparr>nutrient = sodium, total_value = 4261487166934221 / 2199023255552,
               per_serving = Some (2029280650455941 / 1099511627776),
               per_100g = Some (2029280650455941 / 1099511627776),
               percent_dv = Some (6495035087598387 / 70368744177664)\<rparr>)]"
  apply (simp add: aggregator_defs example_defs float_ops)
  apply (simp add: float_eval)
  done

lemma sweet_rice_nutrition:
  "calculate_nutrition binary64 sweet_rice =
     Inr [(1, \<lparr>nutrient = energy, total_value = 711, per_serving = Some (711 / 4),
               per_100g = Some (711 / 2),
               percent_dv = Some (5010254585449677 / 562949953421312)\<rparr>),
          (6, \<lparr>nutrient = total_sugars, total_value = 50, per_serving = Some (25 / 2),
               per_100g = Some 25, percent_dv = None\<rparr>)]"
  apply (simp add: aggregator_defs example_defs float_ops)
  apply (simp add: float_eval)
  done

lemma zero_weight_nutrition:
  "total_weight binary64 zero_weight = 0"
  "finish_all binary64 1 (serving_size zero_weight) (accumulate binary64 zero_weight) =
     Inr [(1, \<lparr>nutrient = energy, total_value = 0, per_serving = Some 0, per_100g = Some 0,
               percent_dv = Some 0\<rparr>)]"
  by (simp_all add: aggregator_defs example_defs float_ops) (simp_all add: float_eval)

lemma thirty_grams_nutrition:
  "calculate_nutrition binary64 thirty_grams =
     Inr [(9, \<lparr>nutrient = sodium, total_value = 3332663724254167 / 9007199254740992,
               per_serving = Some (5584463537939415 / 4503599627370496),
               per_100g = Some (5584463537939415 / 4503599627370496),
               percent_dv = Some (3602879701896397 / 36028797018963968)\<rparr>)]"
  apply (simp add: aggregator_defs example_defs float_ops)
  apply (simp add: float_eval)
  done

lemma ninety_grams_nutrition:
  "calculate_nutrition binary64 (scale_weights binary64 3 thirty_grams) =
     Inr [(9, \<lparr>nutrient = sodium, total_value = 1261007895663739 / 1125899906842624,
               per_serving = Some (5 / 4), per_100g = Some (5 / 4),
               percent_dv = Some (3602879701896397 / 36028797018963968)\<rparr>)]"
  apply (simp add: aggregator_defs example_defs float_ops)
  apply (simp add: float_eval)
  done

lemma two_salts_nutrition:
  "calculate_nutrition binary64 two_salts =
     Inr [(9, \<lparr>nutrient = sodium, total_value = 1400, per_serving = Some 700,
               per_100g = Some 700, percent_dv = Some 35\<rparr>)]"
  apply (simp add: aggregator_defs example_defs float_ops)
  apply (simp add: float_eval)
  done

subsection \<open>The aggregator never fails\<close>

lemma finish_entry_Inr:
  assumes "total_wt \<noteq> 0"
  shows "\<exists>data'. finish_entry fl total_wt serving data = Inr data'"
  using assms by (simp add: finish_entry_def fdiv_def truthy_def Let_def split: option.splits)

lemma finish_all_Inr:
  assumes "total_wt \<noteq> 0"
  shows "\<exists>nutrition'. finish_all fl total_wt serving nutrition = Inr nutrition'"
proof (induction nutrition)
  case Nil
  show ?case by simp
next
  case (Cons item rest)
  obtain nid data where item: "item = (nid, data)" by (cases item)
  from finish_entry_Inr [OF assms] obtain data'
    where "finish_entry fl total_wt serving data = Inr data'" by blast
  with Cons item show ?case by auto
qed

lemma calculate_nutrition_Inr: "\<exists>nutrition. calculate_nutrition fl r = Inr nutrition"
  unfolding calculate_nutrition_def Let_def by (rule finish_all_Inr) simp

lemma finish_all_items:
  assumes "finish_all fl total_wt serving nutrition = Inr nutrition'"
    and "(nid, data') \<in> set nutrition'"
  shows "\<exists>data. (nid, data) \<in> set nutrition \<and> finish_entry fl total_wt serving data = Inr data'"
  using assms
proof (induction nutrition arbitrary: nutrition')
  case Nil
  then show ?case by simp
next
  case (Cons item rest)
  obtain k data0 where item: "item = (k, data0)" by (cases item)
  from Cons.prems(1) item obtain d' rest' where
    d': "finish_entry fl total_wt serving data0 = Inr d'" and
    rest': "finish_all fl total_wt serving rest = Inr rest'" and
    n': "nutrition' = (k, d') # rest'"
    by (auto split: sum.splits)
  show ?case
  proof (cases "(nid, data') = (k, d')")
    case True
    with d' item show ?thesis by auto
  next
    case False
    with Cons.prems(2) n' have "(nid, data') \<in> set rest'" by auto
    from Cons.IH [OF rest' this] show ?thesis by auto
  qed
qed

text \<open>
  Claim C5. The aggregator is total: \<open>calculate_nutrition\<close> returns a result for every
  recipe and never raises \<open>ZeroDivisionError\<close>; when the total ingredient weight is zero
  the second loop runs with the divisor 1; and a recipe without ingredients gives the
  empty dictionary.
\<close>

theorem calculate_nutrition_degenerate:
  "(\<exists>nutrition. calculate_nutrition fl r = Inr nutrition) \<and>
   (total_weight fl r = 0 \<longrightarrow>
      calculate_nutrition fl r = finish_all fl 1 (serving_size r) (accumulate fl r)) \<and>
   (ingredients r = [] \<longrightarrow> calculate_nutrition fl r = Inr [])"
  by (simp add: calculate_nutrition_Inr) (simp add: calculate_nutrition_def accumulate_def)

theorem calculate_nutrition_degenerate_witness:
  "total_weight binary64 zero_weight = 0 \<and>
   calculate_nutrition binary64 zero_weight =
     Inr [(1, \<lparr>nutrient = energy, total_value = 0, per_serving = Some 0, per_100g = Some 0,
               percent_dv = Some 0\<rparr>)] \<and>
   ingredients no_ingredients = [] \<and>
   calculate_nutrition binary64 no_ingredients = Inr []"
proof -
  note w = zero_weight_nutrition(1) and f = zero_weight_nutrition(2)
  have i: "ingredients no_ingredients = []"
    by (simp add: no_ingredients_def)
  from calculate_nutrition_degenerate [of binary64 zero_weight]
    calculate_nutrition_degenerate [of binary64 no_ingredients] w f i
  show ?thesis by simp
qed

subsection \<open>Percent of the daily value\<close>

lemma finish_entry_percent_dv:
  assumes "finish_entry fl total_wt serving data = Inr data'"
  shows "nutrient data' = nutrient data"
    and "(percent_dv data' \<noteq> None) = truthy (daily_value (nutrient data))"
  using assms
  by (auto simp: finish_entry_def Let_def split: sum.splits if_splits)

text \<open>
  Claim C7. In every result of the aggregator, \<open>percent_dv\<close> is not \<open>None\<close> exactly when
  the nutrient's \<open>daily_value\<close> is set and not zero; with \<open>daily_value\<close> null it is
  \<open>None\<close>, not 0.
\<close>

theorem percent_dv_defined:
  "case calculate_nutrition fl r of
     Inl e \<Rightarrow> False
   | Inr nutrition \<Rightarrow>
       \<forall>(nid, data) \<in> set nutrition.
         (percent_dv data \<noteq> None) =
         (\<exists>dv. daily_value (nutrient data) = Some dv \<and> dv \<noteq> 0)"
proof -
  obtain nutrition where n: "calculate_nutrition fl r = Inr nutrition"
    using calculate_nutrition_Inr by blast
  have "(percent_dv data \<noteq> None) = (\<exists>dv. daily_value (nutrient data) = Some dv \<and> dv \<noteq> 0)"
    if "(nid, data) \<in> set nutrition" for nid data
  proof -
    from n that obtain d0 where
      "finish_entry fl (if total_weight fl r = 0 then 1 else total_weight fl r)
         (serving_size r) d0 = Inr data"
      unfolding calculate_nutrition_def Let_def by (blast dest: finish_all_items)
    from finish_entry_percent_dv [OF this] show ?thesis
      by (auto simp: truthy_def split: option.splits)
  qed
  with n show ?thesis by auto
qed

theorem percent_dv_defined_witness:
  "map (\<lambda>(nid, data). (nid, percent_dv data \<noteq> None, daily_value (nutrient data)))
     (projr (calculate_nutrition binary64 sweet_rice)) = [(1, True, Some 2000), (6, False, None)]"
proof -
  have dv: "map (\<lambda>(nid, data). (nid, daily_value (nutrient data)))
     (projr (calculate_nutrition binary64 sweet_rice)) = [(1, Some 2000), (6, None)]"
    by (simp add: sweet_rice_nutrition energy_def total_sugars_def)
  from percent_dv_defined [of binary64 sweet_rice] obtain nutrition where
    n: "calculate_nutrition binary64 sweet_rice = Inr nutrition" and
    h: "\<forall>(nid, data) \<in> set nutrition. (percent_dv data \<noteq> None) =
          (\<exists>dv. daily_value (nutrient data) = Some dv \<and> dv \<noteq> 0)"
    by (auto split: sum.splits)
  from dv n obtain d1 d6 where
    "nutrition = [(1, d1), (6, d6)]" "daily_value (nutrient d1) = Some 2000"
    "daily_value (nutrient d6) = None"
    by (auto simp: map_eq_Cons_conv)
  with h n show ?thesis by auto
qed

subsection \<open>The checks and the lists they write\<close>


lemma check_mandatory_foldl:
  "foldl (\<lambda>c mn. if mn \<notin> present_names (nutrition_data c)
                    then c\<lparr>issues := issues c @ [missing_nutrient_issue mn]\<rparr> else c) c mns =
   c\<lparr>issues := issues c @ map missing_nutrient_issue
                 (filter (\<lambda>mn. mn \<notin> present_names (nutrition_data c)) mns)\<rparr>"
  by (induction mns arbitrary: c) auto

lemma check_mandatory_nutrients_eq:
  "check_mandatory_nutrients c =
   c\<lparr>issues := issues c @ map missing_nutrient_issue
                 (filter (\<lambda>mn. mn \<notin> present_names (nutrition_data c)) MANDATORY_NUTRIENTS)\<rparr>"
  unfolding check_mandatory_nutrients_def by (rule check_mandatory_foldl)

lemma check_serving_size_declaration_fields [simp]:
  "recipe (check_serving_size_declaration c) = recipe c"
  "nutrition_data (check_serving_size_declaration c) = nutrition_data c"
  "info (check_serving_size_declaration c) = info c"
  "issues (check_serving_size_declaration c) =
     issues c @ (if serving_size (recipe c) \<le> 0 then [serving_size_issue] else []) @
       (if serving_unit (recipe c) = [] then [serving_unit_issue] else [])"
  by (auto simp: check_serving_size_declaration_def Let_def)

lemma check_fop_warnings_fields [simp]:
  "recipe (check_fop_warnings sf c) = recipe c"
  "nutrition_data (check_fop_warnings sf c) = nutrition_data c"
  "info (check_fop_warnings sf c) = info c"
  "issues (check_fop_warnings sf c) = issues c"
  by (simp_all add: check_fop_warnings_def Let_def)

lemma check_ingredient_list_fields [simp]:
  "recipe (check_ingredient_list c) = recipe c"
  "nutrition_data (check_ingredient_list c) = nutrition_data c"
  "warnings (check_ingredient_list c) = warnings c"
  "issues (check_ingredient_list c) =
     issues c @ (if ingredients (recipe c) = [] then [ingredient_list_issue] else [])"
  by (simp_all add: check_ingredient_list_def)

lemma check_allergen_declaration_fields [simp]:
  "recipe (check_allergen_declaration c) = recipe c"
  "nutrition_data (check_allergen_declaration c) = nutrition_data c"
  "issues (check_allergen_declaration c) = issues c"
  by (simp_all add: check_allergen_declaration_def)

lemma check_fssai_license_fields [simp]:
  "recipe (check_fssai_license c) = recipe c"
  "nutrition_data (check_fssai_license c) = nutrition_data c"
  "issues (check_fssai_license c) = issues c"
  by (simp_all add: check_fssai_license_def Let_def)

lemma check_trans_fat_fields [simp]:
  "recipe (check_trans_fat fl sf c) = recipe c"
  "nutrition_data (check_trans_fat fl sf c) = nutrition_data c"
  "issues (check_trans_fat fl sf c) = issues c"
  "info (check_trans_fat fl sf c) = info c"
  by (simp_all add: check_trans_fat_def Let_def split: option.splits prod.splits)

lemma check_mandatory_nutrients_fields [simp]:
  "recipe (check_mandatory_nutrients c) = recipe c"
  "nutrition_data (check_mandatory_nutrients c) = nutrition_data c"
  "warnings (check_mandatory_nutrients c) = warnings c"
  "info (check_mandatory_nutrients c) = info c"
  "issues (check_mandatory_nutrients c) = issues c @ missing_issues (nutrition_data c)"
  by (simp_all add: check_mandatory_nutrients_eq missing_issues_def)

lemma run_checks_fields:
  "recipe (run_checks fl sf c) = recipe c"
  "nutrition_data (run_checks fl sf c) = nutrition_data c"
  "issues (run_checks fl sf c) =
     missing_issues (nutrition_data c) @
     (if serving_size (recipe c) \<le> 0 then [serving_size_issue] else []) @
     (if serving_unit (recipe c) = [] then [serving_unit_issue] else []) @
     (if ingredients (recipe c) = [] then [ingredient_list_issue] else [])"
  by (simp_all add: run_checks_def)

lemma missing_issues_Nil: "(missing_issues nd = []) = (set MANDATORY_NUTRIENTS \<subseteq> present_names nd)"
  by (auto simp: missing_issues_def filter_empty_conv)

text \<open>
  Claim C2. \<open>check_all\<close> returns \<open>is_compliant = True\<close> exactly when the issues list
  accumulated by the seven checks is empty. The verdict is decided by the four conditions
  that append an issue (a mandatory nutrient missing, the serving size, the serving unit,
  the ingredient list); what the checks append to \<open>warnings\<close> and \<open>info\<close> has no part
  in it.
\<close>

theorem check_all_verdict:
  "fst (check_all fl str_float c) = (issues (run_checks fl str_float c) = []) \<and>
   fst (check_all fl str_float c) =
     (set MANDATORY_NUTRIENTS \<subseteq> present_names (nutrition_data c) \<and>
      0 < serving_size (recipe c) \<and> serving_unit (recipe c) \<noteq> [] \<and>
      ingredients (recipe c) \<noteq> [])"
  by (auto simp: check_all_def Let_def run_checks_fields missing_issues_Nil)


lemma missing_nutrient_issue_inj [simp]:
  "(missing_nutrient_issue a = missing_nutrient_issue b) = (a = b)"
  by (simp add: missing_nutrient_issue_def)

lemma missing_nutrient_issue_prefix [simp]:
  "prefix ''MISSING MANDATORY NUTRIENT'' (missing_nutrient_issue mn)"
  by (simp add: missing_nutrient_issue_def)

lemma other_issues_not_missing [simp]:
  "serving_size_issue \<noteq> missing_nutrient_issue mn"
  "serving_unit_issue \<noteq> missing_nutrient_issue mn"
  "ingredient_list_issue \<noteq> missing_nutrient_issue mn"
  "\<not> prefix ''MISSING MANDATORY NUTRIENT'' serving_size_issue"
  "\<not> prefix ''MISSING MANDATORY NUTRIENT'' serving_unit_issue"
  "\<not> prefix ''MISSING MANDATORY NUTRIENT'' ingredient_list_issue"
  by (simp_all add: missing_nutrient_issue_def serving_size_issue_def serving_unit_issue_def
      ingredient_list_issue_def)

lemma count_list_map_filter:
  assumes "distinct xs" and "inj f"
  shows "count_list (map f (filter P xs)) (f x) = (if x \<in> set xs \<and> P x then 1 else 0)"
  using assms(1)
proof (induction xs)
  case Nil
  show ?case by simp
next
  case (Cons y ys)
  from assms(2) have "(f y = f x) = (y = x)" by (auto dest: injD)
  with Cons show ?case by auto
qed

lemma distinct_MANDATORY_NUTRIENTS: "distinct MANDATORY_NUTRIENTS"
  by (simp add: MANDATORY_NUTRIENTS_def)

lemma count_list_missing_issues:
  "count_list (missing_issues nd) (missing_nutrient_issue mn) =
     (if mn \<in> set MANDATORY_NUTRIENTS \<and> mn \<notin> present_names nd then 1 else 0)"
  unfolding missing_issues_def
  by (rule count_list_map_filter [OF distinct_MANDATORY_NUTRIENTS]) (simp add: inj_def)

lemma filter_prefix_missing_issues:
  "filter (prefix ''MISSING MANDATORY NUTRIENT'') (missing_issues nd) = missing_issues nd"
  by (simp add: missing_issues_def)

lemma length_missing_issues:
  "length (missing_issues nd) = card (set MANDATORY_NUTRIENTS - present_names nd)"
proof -
  have "distinct (filter (\<lambda>mn. mn \<notin> present_names nd) MANDATORY_NUTRIENTS)"
    using distinct_MANDATORY_NUTRIENTS by simp
  from distinct_card [OF this] show ?thesis
    by (simp add: missing_issues_def set_diff_eq)
qed

text \<open>
  Claim C3. After \<open>check_all\<close>, the issue for a mandatory nutrient occurs once in the
  issues list when the name is absent from the nutrition result and not at all when it is
  present (or is not one of the ten names); the issues that start with MISSING MANDATORY
  NUTRIENT are as many as the absent mandatory names. Hence a result that misses exactly
  Trans Fat, Added Sugars and Dietary Fibre is not compliant and has exactly 3 such issues.
\<close>

theorem mandatory_nutrient_issues:
  "(\<forall>mn. count_list (issues (run_checks fl str_float c)) (missing_nutrient_issue mn) =
      (if mn \<in> set MANDATORY_NUTRIENTS \<and> mn \<notin> present_names (nutrition_data c) then 1 else 0)) \<and>
   length (filter (prefix ''MISSING MANDATORY NUTRIENT'') (issues (run_checks fl str_float c))) =
     card (set MANDATORY_NUTRIENTS - present_names (nutrition_data c)) \<and>
   (set MANDATORY_NUTRIENTS - present_names (nutrition_data c) =
      {''Trans Fat'', ''Added Sugars'', ''Dietary Fibre''} \<longrightarrow>
    \<not> fst (check_all fl str_float c) \<and>
    length (filter (prefix ''MISSING MANDATORY NUTRIENT'')
      (issues (run_checks fl str_float c))) = 3)"
proof (intro conjI allI impI)
  fix mn
  show "count_list (issues (run_checks fl str_float c)) (missing_nutrient_issue mn) =
      (if mn \<in> set MANDATORY_NUTRIENTS \<and> mn \<notin> present_names (nutrition_data c) then 1 else 0)"
    by (simp add: run_checks_fields count_list_missing_issues)
next
  show len: "length (filter (prefix ''MISSING MANDATORY NUTRIENT'')
      (issues (run_checks fl str_float c))) =
     card (set MANDATORY_NUTRIENTS - present_names (nutrition_data c))"
    by (simp add: run_checks_fields filter_prefix_missing_issues length_missing_issues)
  assume three: "set MANDATORY_NUTRIENTS - present_names (nutrition_data c) =
      {''Trans Fat'', ''Added Sugars'', ''Dietary Fibre''}"
  then have "\<not> set MANDATORY_NUTRIENTS \<subseteq> present_names (nutrition_data c)"
    by auto
  then show "\<not> fst (check_all fl str_float c)"
    by (simp add: check_all_def Let_def run_checks_fields missing_issues_Nil)
  from len three show "length (filter (prefix ''MISSING MANDATORY NUTRIENT'')
      (issues (run_checks fl str_float c))) = 3"
    by simp
qed

theorem mandatory_nutrient_issues_witness:
  "set MANDATORY_NUTRIENTS - present_names (nutrition_data (init_checker rice_salt seven_nutrients)) =
     {''Trans Fat'', ''Added Sugars'', ''Dietary Fibre''} \<and>
   \<not> fst (check_all binary64 format_1f (init_checker rice_salt seven_nutrients)) \<and>
   length (filter (prefix ''MISSING MANDATORY NUTRIENT'')
     (issues (run_checks binary64 format_1f (init_checker rice_salt seven_nutrients)))) = 3 \<and>
   count_list (issues (run_checks binary64 format_1f (init_checker rice_salt seven_nutrients)))
     (missing_nutrient_issue ''Trans Fat'') = 1 \<and>
   count_list (issues (run_checks binary64 format_1f (init_checker rice_salt seven_nutrients)))
     (missing_nutrient_issue ''Sodium'') = 0"
proof -
  have names: "present_names (nutrition_data (init_checker rice_salt seven_nutrients)) =
     {''Energy'', ''Total Fat'', ''Saturated Fat'', ''Total Carbohydrate'', ''Total Sugars'',
      ''Protein'', ''Sodium''}"
    by (simp add: init_checker_def seven_nutrients_def named_entry_def present_names_def)
  have three: "set MANDATORY_NUTRIENTS -
       present_names (nutrition_data (init_checker rice_salt seven_nutrients)) =
     {''Trans Fat'', ''Added Sugars'', ''Dietary Fibre''}"
    unfolding names by (auto simp: MANDATORY_NUTRIENTS_def)
  have tf: "''Trans Fat'' \<in> set MANDATORY_NUTRIENTS" "''Sodium'' \<in> set MANDATORY_NUTRIENTS"
    by (simp_all add: MANDATORY_NUTRIENTS_def)
  have pr: "''Trans Fat'' \<notin> present_names (nutrition_data (init_checker rice_salt seven_nutrients))"
    "''Sodium'' \<in> present_names (nutrition_data (init_checker rice_salt seven_nutrients))"
    unfolding names by simp_all
  from mandatory_nutrient_issues [of binary64 format_1f "init_checker rice_salt seven_nutrients"]
    three tf pr
  show ?thesis by simp
qed

subsection \<open>The license check\<close>


lemma dropWhile_all:
  "(\<forall>x \<in> set xs. P x) \<Longrightarrow> dropWhile P (xs @ ys) = dropWhile P ys"
  by (induction xs) auto

lemma strip_all_space:
  assumes "\<forall>ch \<in> set s. isspace ch"
  shows "strip s = []"
proof -
  from assms have h: "dropWhile isspace s = []"
    by (induction s) auto
  have "strip s = rev (dropWhile isspace (rev []))"
    by (simp only: strip_def h)
  then show ?thesis by simp
qed

lemma strip_surrounded:
  assumes "\<forall>ch \<in> set ws1. isspace ch" and "\<forall>ch \<in> set ws2. isspace ch"
    and "d \<noteq> []" and "\<forall>ch \<in> set d. \<not> isspace ch"
  shows "strip (ws1 @ d @ ws2) = d"
proof -
  have keep: "dropWhile isspace xs = xs" if "xs \<noteq> []" "\<not> isspace (hd xs)" for xs
    using that by (cases xs) simp_all
  from assms(3,4) have hd: "\<not> isspace (hd d)" and lst: "\<not> isspace (hd (rev d))"
    by (simp_all add: hd_rev)
  from assms(1) have "dropWhile isspace (ws1 @ d @ ws2) = dropWhile isspace (d @ ws2)"
    by (rule dropWhile_all)
  also from assms(3) hd have "\<dots> = d @ ws2"
    by (intro keep) simp_all
  finally have 1: "dropWhile isspace (ws1 @ d @ ws2) = d @ ws2" .
  from assms(2) have "dropWhile isspace (rev ws2 @ rev d) = dropWhile isspace (rev d)"
    by (intro dropWhile_all) simp
  also from assms(3) lst have "\<dots> = rev d"
    by (intro keep) simp_all
  finally have 2: "dropWhile isspace (rev ws2 @ rev d) = rev d" .
  from 1 2 show ?thesis by (simp add: strip_def)
qed

lemma isdigit_char_not_isspace: "isdigit_char ch \<Longrightarrow> \<not> isspace ch"
  by (auto simp: isdigit_char_def isspace_def)

text \<open>
  Claim C10. The license check validates the stripped string: a license made of whitespace
  only (the empty string included) gets the warning that no license was provided, and a
  license of 14 digits with whitespace before and after it is noted in \<open>info\<close> as format
  valid, without its whitespace and with no warning.
\<close>

theorem license_whitespace:
  "((\<forall>ch \<in> set (fssai_license (recipe c)). isspace ch) \<longrightarrow>
      check_fssai_license c = c\<lparr>warnings := warnings c @ [no_license_warning]\<rparr>) \<and>
   (fssai_license (recipe c) = ws1 @ d @ ws2 \<and>
    (\<forall>ch \<in> set ws1. isspace ch) \<and> (\<forall>ch \<in> set ws2. isspace ch) \<and>
    length d = 14 \<and> (\<forall>ch \<in> set d. isdigit_char ch) \<longrightarrow>
      check_fssai_license c = c\<lparr>info := info c @ [valid_license_info d]\<rparr>)"
proof (intro conjI impI)
  assume "\<forall>ch \<in> set (fssai_license (recipe c)). isspace ch"
  then show "check_fssai_license c = c\<lparr>warnings := warnings c @ [no_license_warning]\<rparr>"
    by (simp add: check_fssai_license_def strip_all_space)
next
  assume a: "fssai_license (recipe c) = ws1 @ d @ ws2 \<and>
    (\<forall>ch \<in> set ws1. isspace ch) \<and> (\<forall>ch \<in> set ws2. isspace ch) \<and>
    length d = 14 \<and> (\<forall>ch \<in> set d. isdigit_char ch)"
  then have d: "d \<noteq> []" "\<forall>ch \<in> set d. \<not> isspace ch"
    by (auto dest: isdigit_char_not_isspace)
  with a have "strip (fssai_license (recipe c)) = d"
    by (simp add: strip_surrounded)
  with a d show "check_fssai_license c = c\<lparr>info := info c @ [valid_license_info d]\<rparr>"
    by (simp add: check_fssai_license_def isdigit_def)
qed

theorem license_whitespace_witness:
  "check_fssai_license (init_checker (rice_salt\<lparr>fssai_license := [CHR '' '', CHR 0x09]\<rparr>) []) =
     (init_checker (rice_salt\<lparr>fssai_license := [CHR '' '', CHR 0x09]\<rparr>) [])
       \<lparr>warnings := [no_license_warning]\<rparr> \<and>
   check_fssai_license (init_checker rice_salt []) =
     (init_checker rice_salt [])\<lparr>warnings := [no_license_warning]\<rparr> \<and>
   check_fssai_license (init_checker sweet_rice []) =
     (init_checker sweet_rice [])\<lparr>info := [''FSSAI LICENSE: 12345678901234 (format valid).'']\<rparr>"
proof -
  have sp: "\<forall>ch \<in> set [CHR '' '', CHR 0x09]. isspace ch" "\<forall>ch \<in> set ''''. isspace ch"
    "\<forall>ch \<in> set '' ''. isspace ch"
    by (simp_all add: isspace_def)
  have dg: "\<forall>ch \<in> set ''12345678901234''. isdigit_char ch"
    by (simp add: isdigit_char_def)
  have lic: "fssai_license (recipe (init_checker sweet_rice [])) = '' '' @ ''12345678901234'' @ '' ''"
    by (simp add: init_checker_def sweet_rice_def)
  from license_whitespace [of "init_checker (rice_salt\<lparr>fssai_license := [CHR '' '', CHR 0x09]\<rparr>) []"]
    license_whitespace [of "init_checker rice_salt []"]
    license_whitespace [of "init_checker sweet_rice []" "'' ''" "''12345678901234''" "'' ''"]
    sp dg lic
  show ?thesis
    by (simp add: init_checker_def rice_salt_def valid_license_info_def)
qed

subsection \<open>The formatted notes\<close>


lemma numbered_nth:
  "numbered xs = map (\<lambda>i. ''  '' @ str_nat (Suc i) @ ''. '' @ xs ! i) [0 ..< length xs]"
proof (rule nth_equalityI)
  show "length (numbered xs) = length (map (\<lambda>i. ''  '' @ str_nat (Suc i) @ ''. '' @ xs ! i) [0 ..< length xs])"
    by (simp add: numbered_def del: upt_Suc)
next
  fix i assume "i < length (numbered xs)"
  then have i: "i < length xs" by (simp add: numbered_def del: upt_Suc)
  then show "numbered xs ! i = map (\<lambda>i. ''  '' @ str_nat (Suc i) @ ''. '' @ xs ! i) [0 ..< length xs] ! i"
    by (simp add: numbered_def nth_append del: upt_Suc)
qed

lemma format_lines_sections:
  "format_lines c =
     section_lines ''=== COMPLIANCE ISSUES (Must Fix) ==='' (issues c) @
     section_lines (CHR 0x0A # ''=== WARNINGS (Recommended) ==='') (warnings c) @
     section_lines (CHR 0x0A # ''=== INFO ==='') (info c) @
     (if issues c = [] \<and> warnings c = [] then [passed_line] else [])"
  by (simp add: format_lines_def section_lines_def Let_def)

text \<open>
  Claim C8, as amended. The notes are the lines of three sections joined by newlines: a
  header and the numbered items for each non-empty list among issues, warnings and info,
  in that order. When issues and warnings are both empty the line that all checks passed
  is appended as the last line, after the Info section if there is one: it does not
  replace that section. (As stated, the claim has the line replace the sections;
  \<open>passed_line_counterexample\<close> below is a compliant recipe whose notes are the Info
  section followed by the line.)
\<close>

theorem format_notes_sections:
  "format_notes c =
     join [CHR 0x0A]
       (section_lines ''=== COMPLIANCE ISSUES (Must Fix) ==='' (issues c) @
        section_lines (CHR 0x0A # ''=== WARNINGS (Recommended) ==='') (warnings c) @
        section_lines (CHR 0x0A # ''=== INFO ==='') (info c) @
        (if issues c = [] \<and> warnings c = [] then [passed_line] else [])) \<and>
   (\<forall>xs. numbered xs = map (\<lambda>i. ''  '' @ str_nat (Suc i) @ ''. '' @ xs ! i) [0 ..< length xs])"
  using numbered_nth by (simp add: format_notes_def format_lines_sections)

theorem passed_line_counterexample:
  "issues (run_checks binary64 format_1f (init_checker sweet_rice ten_nutrients)) = [] \<and>
   warnings (run_checks binary64 format_1f (init_checker sweet_rice ten_nutrients)) = [] \<and>
   format_lines (run_checks binary64 format_1f (init_checker sweet_rice ten_nutrients)) =
     [CHR 0x0A # ''=== INFO ==='',
      ''  1. INGREDIENT LIST: 2 ingredients declared. Listed in descending order of composition by weight as required.'',
      ''  2. ALLERGEN DECLARATION: Provided.'',
      ''  3. FSSAI LICENSE: 12345678901234 (format valid).'',
      passed_line] \<and>
   snd (check_all binary64 format_1f (init_checker sweet_rice ten_nutrients)) \<noteq> passed_line"
  by code_simp

subsection \<open>The front-of-pack classifier\<close>


lemma half_thresholds:
  "fmul binary64 (35 / 2) (1 / 2) = 35 / 4"
  "fmul binary64 5 (1 / 2) = 5 / 2"
  "fmul binary64 (45 / 2) (1 / 2) = 45 / 4"
  "fmul binary64 600 (1 / 2) = 300"
  by (simp_all add: fmul_def float_eval)

lemma fop_indicator_of_binary64:
  assumes "fmul binary64 t (1 / 2) = h"
  shows "fop_indicator_of binary64 per (nm, t, u) =
     \<lparr>fop_nutrient = nm, fop_value = dict_get per nm 0, fop_unit = u,
      level = (if dict_get per nm 0 > t then ''HIGH''
               else if dict_get per nm 0 > h then ''MEDIUM'' else ''LOW''),
      color = (if dict_get per nm 0 > t then ''red''
               else if dict_get per nm 0 > h then ''amber'' else ''green'')\<rparr>"
  using assms by (simp add: fop_indicator_of_def Let_def)

lemma dom_per_100g_foldl:
  "dom (foldl (\<lambda>m (nid, data). m(nutrient_name (nutrient data) \<mapsto> get_per_100g data)) m nd) =
     dom m \<union> present_names nd"
  by (induction nd arbitrary: m) (auto simp: present_names_def)

lemma dom_per_100g_by_name: "dom (per_100g_by_name nd) = present_names nd"
  by (simp add: per_100g_by_name_def dom_per_100g_foldl)

text \<open>
  Claim C4. \<open>get_fop_indicators\<close> classifies the dictionary of the per-100g values by
  nutrient name, whose keys are the names present in the nutrition data. For every such
  dictionary it returns 4 indicators, for Total Fat, Saturated Fat, Total Sugars and Sodium
  in this order, with the thresholds 17.5, 5, 22.5 and 600; the value of an indicator is
  the dictionary's value for the name, 0 when the name is absent; the level is HIGH and
  the colour red above the threshold, MEDIUM and amber above half the threshold and up to
  the threshold, LOW and green up to half the threshold.
\<close>

theorem fop_classification:
  "get_fop_indicators binary64 c = classify binary64 (per_100g_by_name (nutrition_data c)) \<and>
   dom (per_100g_by_name (nutrition_data c)) = present_names (nutrition_data c) \<and>
   length (classify binary64 per) = 4 \<and>
   map fop_nutrient (classify binary64 per) =
     [''Total Fat'', ''Saturated Fat'', ''Total Sugars'', ''Sodium''] \<and>
   (\<forall>(ind, t) \<in> set (zip (classify binary64 per) [35 / 2, 5, 45 / 2, 600]).
      fop_value ind = (case per (fop_nutrient ind) of None \<Rightarrow> 0 | Some v \<Rightarrow> v) \<and>
      (t < fop_value ind \<longrightarrow> level ind = ''HIGH'' \<and> color ind = ''red'') \<and>
      (t * (1 / 2) < fop_value ind \<and> fop_value ind \<le> t \<longrightarrow>
         level ind = ''MEDIUM'' \<and> color ind = ''amber'') \<and>
      (fop_value ind \<le> t * (1 / 2) \<longrightarrow> level ind = ''LOW'' \<and> color ind = ''green''))"
proof -
  have c: "classify binary64 per =
    [fop_indicator_of binary64 per (''Total Fat'', 35 / 2, ''g''),
     fop_indicator_of binary64 per (''Saturated Fat'', 5, ''g''),
     fop_indicator_of binary64 per (''Total Sugars'', 45 / 2, ''g''),
     fop_indicator_of binary64 per (''Sodium'', 600, ''mg'')]"
    by (simp add: classify_def fop_checks_def HIGH_FAT_THRESHOLD_def
        HIGH_SATURATED_FAT_THRESHOLD_def HIGH_SUGAR_THRESHOLD_def HIGH_SODIUM_THRESHOLD_def)
  show ?thesis
    unfolding c fop_indicator_of_binary64 [OF half_thresholds(1)]
      fop_indicator_of_binary64 [OF half_thresholds(2)]
      fop_indicator_of_binary64 [OF half_thresholds(3)]
      fop_indicator_of_binary64 [OF half_thresholds(4)]
    by (simp add: dict_get_def get_fop_indicators_def dom_per_100g_by_name)
qed

theorem fop_classification_witness:
  "map (\<lambda>ind. (fop_nutrient ind, fop_value ind, level ind, color ind))
     (classify binary64 [''Total Fat'' \<mapsto> 20, ''Saturated Fat'' \<mapsto> 3, ''Sodium'' \<mapsto> 600]) =
   [(''Total Fat'', 20, ''HIGH'', ''red''), (''Saturated Fat'', 3, ''MEDIUM'', ''amber''),
    (''Total Sugars'', 0, ''LOW'', ''green''), (''Sodium'', 600, ''MEDIUM'', ''amber'')]"
proof -
  let ?per = "[''Total Fat'' \<mapsto> 20, ''Saturated Fat'' \<mapsto> 3, ''Sodium'' \<mapsto> (600::rat)]"
  from fop_classification [of "init_checker rice_salt []" ?per] obtain a b c d where
    l: "classify binary64 ?per = [a, b, c, d]"
    by (auto simp: length_Suc_conv numeral_eq_Suc)
  from fop_classification [of "init_checker rice_salt []" ?per] show ?thesis
    unfolding l by simp
qed

subsection \<open>What the aggregator reports\<close>


lemma finish_all_keys:
  "finish_all fl total_wt serving nutrition = Inr nutrition' \<Longrightarrow>
   map fst nutrition' = map fst nutrition"
  by (induction nutrition arbitrary: nutrition') (auto split: sum.splits)

lemma finish_entry_values:
  assumes "finish_entry fl total_wt serving data = Inr data'"
  shows "per_serving data' =
           Some (py_round fl (fmul fl (fl (total_value data / total_wt)) serving) 2)"
    and "per_100g data' = Some (py_round fl (fmul fl (fl (total_value data / total_wt)) 100) 2)"
  using assms
  by (auto simp: finish_entry_def fdiv_def Let_def split: sum.splits if_splits)

lemma accumulate_rows:
  "accumulate fl r = foldl (\<lambda>acc (w, row). add_row fl w acc row) [] (nutrient_rows r)"
proof -
  have "foldl (add_ingredient fl) acc ris =
        foldl (\<lambda>acc (w, row). add_row fl w acc row) acc
          (concat (map (\<lambda>ri. map (Pair (weight_grams ri)) (nutrients (ri_ingredient ri))) ris))"
    for acc ris
  proof (induction ris arbitrary: acc)
    case Nil
    show ?case by simp
  next
    case (Cons ri ris)
    have "foldl (\<lambda>acc (w, row). add_row fl w acc row) acc (map (Pair w) rows) =
          foldl (add_row fl w) acc rows" for w rows acc
      by (induction rows arbitrary: acc) simp_all
    with Cons show ?case by (simp add: add_ingredient_def)
  qed
  then show ?thesis by (simp add: accumulate_def nutrient_rows_def)
qed

lemma map_of_dict_update:
  "map_of (dict_update d k f) k' = (if k' = k then map_option f (map_of d k) else map_of d k')"
  by (induction d) (auto simp: dict_update_def)

lemma keys_dict_update [simp]: "map fst (dict_update d k f) = map fst d"
  by (induction d) (auto simp: dict_update_def)

lemma keys_add_row:
  "map fst (add_row fl w acc row) =
     (if nutrient_id (inv_nutrient row) \<in> set (map fst acc) then map fst acc
      else map fst acc @ [nutrient_id (inv_nutrient row)])"
  by (auto simp: add_row_def Let_def map_of_eq_None_iff)

lemma total_value_add_row:
  assumes "map_of (add_row fl w acc row) k = Some d"
  shows "total_value d =
     (if k = nutrient_id (inv_nutrient row)
      then fadd fl (case map_of acc k of None \<Rightarrow> 0 | Some d0 \<Rightarrow> total_value d0)
             (fmul fl (fl (w / 100)) (value_per_100g row))
      else (case map_of acc k of None \<Rightarrow> 0 | Some d0 \<Rightarrow> total_value d0))"
  using assms
  by (auto simp: add_row_def Let_def map_of_dict_update map_of_append split: if_splits option.splits)

lemma set_keys_add_row:
  "fst ` set (add_row fl w acc row) = insert (nutrient_id (inv_nutrient row)) (fst ` set acc)"
proof -
  have "set (map fst (add_row fl w acc row)) =
        insert (nutrient_id (inv_nutrient row)) (set (map fst acc))"
    unfolding keys_add_row by auto
  then show ?thesis by simp
qed

lemma keys_foldl_add_row:
  "fst ` set (foldl (\<lambda>acc (w, row). add_row fl w acc row) acc rows) =
     fst ` set acc \<union> (\<lambda>(w, row). nutrient_id (inv_nutrient row)) ` set rows"
proof (induction rows arbitrary: acc)
  case Nil
  show ?case by simp
next
  case (Cons x rows)
  obtain w row where x: "x = (w, row)" by (cases x)
  from Cons [of "add_row fl w acc row"] x show ?case
    by (simp add: set_keys_add_row)
qed

lemma distinct_foldl_add_row:
  "distinct (map fst acc) \<Longrightarrow>
     distinct (map fst (foldl (\<lambda>acc (w, row). add_row fl w acc row) acc rows))"
  by (induction rows arbitrary: acc) (auto simp: keys_add_row)

lemma total_value_foldl_add_row:
  assumes "map_of (foldl (\<lambda>acc (w, row). add_row fl w acc row) acc rows) k = Some d"
  shows "total_value d =
     foldl (fadd fl) (case map_of acc k of None \<Rightarrow> 0 | Some d0 \<Rightarrow> total_value d0)
       (map (\<lambda>(w, row). fmul fl (fl (w / 100)) (value_per_100g row))
         (filter (\<lambda>(w, row). nutrient_id (inv_nutrient row) = k) rows))"
  using assms
proof (induction rows arbitrary: acc)
  case Nil
  then show ?case by simp
next
  case (Cons x rows)
  obtain w row where x: "x = (w, row)" by (cases x)
  let ?acc = "add_row fl w acc row"
  from Cons.prems x have "map_of (foldl (\<lambda>acc (w, row). add_row fl w acc row) ?acc rows) k = Some d"
    by simp
  from Cons.IH [OF this] have ih: "total_value d =
     foldl (fadd fl) (case map_of ?acc k of None \<Rightarrow> 0 | Some d0 \<Rightarrow> total_value d0)
       (map (\<lambda>(w, row). fmul fl (fl (w / 100)) (value_per_100g row))
         (filter (\<lambda>(w, row). nutrient_id (inv_nutrient row) = k) rows))" .
  show ?case
  proof (cases "map_of ?acc k")
    case None
    then have "k \<notin> set (map fst ?acc)" by (simp add: map_of_eq_None_iff)
    then have "k \<noteq> nutrient_id (inv_nutrient row)" "k \<notin> set (map fst acc)"
      by (auto simp: keys_add_row split: if_splits)
    then have "map_of acc k = None" by (simp add: map_of_eq_None_iff)
    with ih None \<open>k \<noteq> nutrient_id (inv_nutrient row)\<close> x show ?thesis by auto
  next
    case (Some d1)
    from total_value_add_row [OF Some] ih Some x show ?thesis by auto
  qed
qed

lemma accumulate_distinct: "distinct (map fst (accumulate fl r))"
  unfolding accumulate_rows by (rule distinct_foldl_add_row) simp

lemma accumulate_keys:
  "set (map fst (accumulate fl r)) =
     (\<lambda>(w, row). nutrient_id (inv_nutrient row)) ` set (nutrient_rows r)"
  unfolding accumulate_rows using keys_foldl_add_row [of fl "[]" "nutrient_rows r"] by simp

lemma accumulate_total_value:
  assumes "(nid, data) \<in> set (accumulate fl r)"
  shows "total_value data = nutrient_total fl r nid"
proof -
  from assms accumulate_distinct have "map_of (accumulate fl r) nid = Some data"
    by simp
  then show ?thesis
    unfolding accumulate_rows nutrient_total_def py_sum_def
    by (auto dest: total_value_foldl_add_row)
qed

lemma calculate_nutrition_formula:
  assumes "0 < total_weight fl r"
  shows "\<exists>nutrition. calculate_nutrition fl r = Inr nutrition \<and>
       distinct (map fst nutrition) \<and>
       set (map fst nutrition) =
         (\<lambda>(w, row). nutrient_id (inv_nutrient row)) ` set (nutrient_rows r) \<and>
       (\<forall>(nid, data) \<in> set nutrition.
          per_serving data =
            Some (py_round fl
              (fmul fl (fl (nutrient_total fl r nid / total_weight fl r)) (serving_size r)) 2) \<and>
          per_100g data =
            Some (py_round fl (fmul fl (fl (nutrient_total fl r nid / total_weight fl r)) 100) 2))"
proof -
  from assms have c: "calculate_nutrition fl r =
      finish_all fl (total_weight fl r) (serving_size r) (accumulate fl r)"
    by (simp add: calculate_nutrition_def)
  obtain nutrition where n: "calculate_nutrition fl r = Inr nutrition"
    using calculate_nutrition_Inr by blast
  with c have f: "finish_all fl (total_weight fl r) (serving_size r) (accumulate fl r) = Inr nutrition"
    by simp
  from finish_all_keys [OF f] have k: "map fst nutrition = map fst (accumulate fl r)" .
  have "per_serving data =
            Some (py_round fl
              (fmul fl (fl (nutrient_total fl r nid / total_weight fl r)) (serving_size r)) 2) \<and>
          per_100g data =
            Some (py_round fl (fmul fl (fl (nutrient_total fl r nid / total_weight fl r)) 100) 2)"
    if "(nid, data) \<in> set nutrition" for nid data
  proof -
    from finish_all_items [OF f that] obtain d0 where
      d0: "(nid, d0) \<in> set (accumulate fl r)" and
      e: "finish_entry fl (total_weight fl r) (serving_size r) d0 = Inr data"
      by blast
    from finish_entry_values [OF e] accumulate_total_value [OF d0] show ?thesis by simp
  qed
  then have vals: "\<forall>(nid, data) \<in> set nutrition.
          per_serving data =
            Some (py_round fl
              (fmul fl (fl (nutrient_total fl r nid / total_weight fl r)) (serving_size r)) 2) \<and>
          per_100g data =
            Some (py_round fl (fmul fl (fl (nutrient_total fl r nid / total_weight fl r)) 100) 2)"
    by blast
  have d: "distinct (map fst nutrition)"
    unfolding k by (rule accumulate_distinct)
  have ks: "set (map fst nutrition) =
         (\<lambda>(w, row). nutrient_id (inv_nutrient row)) ` set (nutrient_rows r)"
    unfolding k by (rule accumulate_keys)
  from n d ks vals show ?thesis by blast
qed


text \<open>
  Claim C1. For a recipe of positive total weight, the result of the aggregator has one
  entry for each nutrient that some ingredient row contributes, and the entry of a
  nutrient reports \<open>per_serving = round((total / total_weight) * serving_size, 2)\<close> and
  \<open>per_100g = round((total / total_weight) * 100, 2)\<close>, where \<open>total\<close> is the sum over the
  rows of the nutrient of \<open>(weight_grams / 100) * value_per_100g\<close>. For 100 g of rice
  (Energy 345) and 5 g of salt (Sodium 38758) with serving size 100, in binary64
  arithmetic: the total weight is 105, Energy per 100 g is the float 328.57, Sodium per
  100 g is the float 1845.62, and the classifier rates Sodium HIGH, red.
\<close>

theorem aggregation_formula:
  "(0 < total_weight fl r \<longrightarrow>
      (\<exists>nutrition. calculate_nutrition fl r = Inr nutrition \<and>
         distinct (map fst nutrition) \<and>
         set (map fst nutrition) =
           (\<lambda>(w, row). nutrient_id (inv_nutrient row)) ` set (nutrient_rows r) \<and>
         (\<forall>(nid, data) \<in> set nutrition.
            per_serving data =
              Some (py_round fl
                (fmul fl (fl (nutrient_total fl r nid / total_weight fl r)) (serving_size r)) 2) \<and>
            per_100g data =
              Some (py_round fl
                (fmul fl (fl (nutrient_total fl r nid / total_weight fl r)) 100) 2)))) \<and>
   total_weight binary64 rice_salt = 105 \<and>
   map (\<lambda>(nid, data). (nutrient_name (nutrient data), per_100g data))
     (projr (calculate_nutrition binary64 rice_salt)) =
     [(''Energy'', Some (binary64 (32857 / 100))), (''Sodium'', Some (binary64 (184562 / 100)))] \<and>
   \<bar>binary64 (32857 / 100) - 32857 / 100\<bar> < 1 / 10 ^ 12 \<and>
   \<bar>binary64 (184562 / 100) - 184562 / 100\<bar> < 1 / 10 ^ 12 \<and>
   \<bar>binary64 (184562 / 100) - 18456 / 10\<bar> < 5 / 100 \<and>
   map (\<lambda>ind. (fop_nutrient ind, fop_value ind, level ind, color ind))
     (get_fop_indicators binary64
        (init_checker rice_salt (projr (calculate_nutrition binary64 rice_salt)))) ! 3 =
     (''Sodium'', binary64 (184562 / 100), ''HIGH'', ''red'')"
proof (intro conjI impI)
  assume "0 < total_weight fl r"
  then show "\<exists>nutrition. calculate_nutrition fl r = Inr nutrition \<and>
         distinct (map fst nutrition) \<and>
         set (map fst nutrition) =
           (\<lambda>(w, row). nutrient_id (inv_nutrient row)) ` set (nutrient_rows r) \<and>
         (\<forall>(nid, data) \<in> set nutrition.
            per_serving data =
              Some (py_round fl
                (fmul fl (fl (nutrient_total fl r nid / total_weight fl r)) (serving_size r)) 2) \<and>
            per_100g data =
              Some (py_round fl
                (fmul fl (fl (nutrient_total fl r nid / total_weight fl r)) 100) 2))"
    by (rule calculate_nutrition_formula)
next
  show "total_weight binary64 rice_salt = 105"
    by (simp add: total_weight_def example_defs float_ops) (simp add: float_eval)
next
  show "map (\<lambda>(nid, data). (nutrient_name (nutrient data), per_100g data))
     (projr (calculate_nutrition binary64 rice_salt)) =
     [(''Energy'', Some (binary64 (32857 / 100))), (''Sodium'', Some (binary64 (184562 / 100)))]"
    by (simp add: rice_salt_nutrition energy_def sodium_def float_eval)
next
  show "\<bar>binary64 (32857 / 100) - 32857 / 100\<bar> < 1 / 10 ^ 12"
    by (simp add: float_eval)
next
  show "\<bar>binary64 (184562 / 100) - 184562 / 100\<bar> < 1 / 10 ^ 12"
    by (simp add: float_eval)
next
  show "\<bar>binary64 (184562 / 100) - 18456 / 10\<bar> < 5 / 100"
    by (simp add: float_eval)
next
  show "map (\<lambda>ind. (fop_nutrient ind, fop_value ind, level ind, color ind))
     (get_fop_indicators binary64
        (init_checker rice_salt (projr (calculate_nutrition binary64 rice_salt)))) ! 3 =
     (''Sodium'', binary64 (184562 / 100), ''HIGH'', ''red'')"
    unfolding rice_salt_nutrition
    by (simp add: fop_defs energy_def sodium_def float_ops) (simp add: float_eval)
qed

theorem aggregation_formula_witness:
  "0 < total_weight binary64 sweet_rice \<and>
   map (\<lambda>(nid, data). (nid, per_serving data, per_100g data))
     (projr (calculate_nutrition binary64 sweet_rice)) =
     [(1, Some (py_round binary64 (fmul binary64 (binary64
              (nutrient_total binary64 sweet_rice 1 / total_weight binary64 sweet_rice))
              (serving_size sweet_rice)) 2),
          Some (py_round binary64 (fmul binary64 (binary64
              (nutrient_total binary64 sweet_rice 1 / total_weight binary64 sweet_rice)) 100) 2)),
      (6, Some (py_round binary64 (fmul binary64 (binary64
              (nutrient_total binary64 sweet_rice 6 / total_weight binary64 sweet_rice))
              (serving_size sweet_rice)) 2),
          Some (py_round binary64 (fmul binary64 (binary64
              (nutrient_total binary64 sweet_rice 6 / total_weight binary64 sweet_rice)) 100) 2))]"
proof -
  have tw: "0 < total_weight binary64 sweet_rice"
    by (simp add: total_weight_def example_defs float_ops) (simp add: float_eval)
  have keys: "map fst (projr (calculate_nutrition binary64 sweet_rice)) = [1, 6]"
    by (simp add: sweet_rice_nutrition)
  from aggregation_formula [of binary64 sweet_rice] tw obtain nutrition where
    n: "calculate_nutrition binary64 sweet_rice = Inr nutrition" and
    v: "\<forall>(nid, data) \<in> set nutrition.
            per_serving data =
              Some (py_round binary64 (fmul binary64 (binary64
                (nutrient_total binary64 sweet_rice nid / total_weight binary64 sweet_rice))
                (serving_size sweet_rice)) 2) \<and>
            per_100g data =
              Some (py_round binary64 (fmul binary64 (binary64
                (nutrient_total binary64 sweet_rice nid / total_weight binary64 sweet_rice))
                100) 2)"
    by blast
  from keys n obtain d1 d6 where "nutrition = [(1, d1), (6, d6)]"
    by (auto simp: map_eq_Cons_conv)
  with v n tw show ?thesis by simp
qed

subsection \<open>Scaling the weights\<close>


lemma py_sum_exact: "py_sum exact xs = sum_list xs"
proof -
  have "foldl (fadd exact) a xs = a + sum_list xs" for a
    by (induction xs arbitrary: a) (simp_all add: fadd_def exact_def)
  then show ?thesis by (simp add: py_sum_def)
qed

lemma total_weight_scale:
  "total_weight exact (scale_weights exact k r) = k * total_weight exact r"
  by (simp add: total_weight_def scale_weights_def py_sum_exact comp_def fmul_def exact_def
      sum_list_const_mult mult.commute)

lemma total_weight_pos:
  assumes "ingredients r \<noteq> []" and "\<forall>ri \<in> set (ingredients r). 0 < weight_grams ri"
  shows "0 < total_weight exact r"
proof -
  have "xs \<noteq> [] \<Longrightarrow> \<forall>x \<in> set xs. 0 < x \<Longrightarrow> 0 < sum_list xs" for xs :: "rat list"
    by (induction xs) (auto intro: add_pos_nonneg sum_list_nonneg less_imp_le)
  with assms show ?thesis
    by (simp add: total_weight_def py_sum_exact)
qed

lemma map_of_scaled: "map_of (scaled k nd) nid =
    map_option (\<lambda>d. d\<lparr>total_value := k * total_value d\<rparr>) (map_of nd nid)"
  by (induction nd) (auto simp: scaled_def)

lemma dict_update_scaled:
  assumes "c' = k * c"
  shows "dict_update (scaled k xs) nid (\<lambda>d. d\<lparr>total_value := total_value d + c'\<rparr>) =
   scaled k (dict_update xs nid (\<lambda>d. d\<lparr>total_value := total_value d + c\<rparr>))"
  using assms by (induction xs) (auto simp: scaled_def dict_update_def algebra_simps)

lemma add_row_scaled:
  "add_row exact (w * k) (scaled k acc) row = scaled k (add_row exact w acc row)"
proof -
  let ?nid = "nutrient_id (inv_nutrient row)"
  let ?fresh = "\<lparr>nutrient = inv_nutrient row, total_value = 0, per_serving = None,
                 per_100g = None, percent_dv = None\<rparr>"
  have m: "(map_of (scaled k acc) ?nid = None) = (map_of acc ?nid = None)"
    by (simp add: map_of_scaled)
  have l: "add_row exact (w * k) (scaled k acc) row =
      dict_update (if map_of acc ?nid = None then scaled k acc @ [(?nid, ?fresh)] else scaled k acc)
        ?nid (\<lambda>d. d\<lparr>total_value := total_value d + w * k / 100 * value_per_100g row\<rparr>)"
    unfolding add_row_def Let_def m fadd_def fmul_def exact_def by (rule refl)
  have r: "add_row exact w acc row =
      dict_update (if map_of acc ?nid = None then acc @ [(?nid, ?fresh)] else acc)
        ?nid (\<lambda>d. d\<lparr>total_value := total_value d + w / 100 * value_per_100g row\<rparr>)"
    unfolding add_row_def Let_def fadd_def fmul_def exact_def by (rule refl)
  have s: "(if map_of acc ?nid = None then scaled k acc @ [(?nid, ?fresh)] else scaled k acc) =
      scaled k (if map_of acc ?nid = None then acc @ [(?nid, ?fresh)] else acc)"
    by (simp add: scaled_def)
  show ?thesis
    unfolding l r s by (rule dict_update_scaled) simp
qed

lemma add_ingredient_scaled:
  "foldl (add_row exact (w * k)) (scaled k acc) rows = scaled k (foldl (add_row exact w) acc rows)"
  by (induction rows arbitrary: acc) (simp_all add: add_row_scaled)

lemma accumulate_scaled:
  "accumulate exact (scale_weights exact k r) = scaled k (accumulate exact r)"
proof -
  have "foldl (add_ingredient exact) (scaled k acc)
          (map (\<lambda>ri. ri\<lparr>weight_grams := fmul exact (weight_grams ri) k\<rparr>) ris) =
        scaled k (foldl (add_ingredient exact) acc ris)" for acc ris
    by (induction ris arbitrary: acc)
      (simp_all add: add_ingredient_def add_ingredient_scaled fmul_def exact_def)
  from this [of "[]"] show ?thesis
    by (simp add: accumulate_def scale_weights_def scaled_def)
qed

lemma finish_entry_scaled:
  assumes "k \<noteq> 0" and "tw \<noteq> 0"
    and "finish_entry exact tw s d = Inr d'"
  shows "\<exists>d''. finish_entry exact (k * tw) s (d\<lparr>total_value := k * total_value d\<rparr>) = Inr d'' \<and>
     per_serving d'' = per_serving d' \<and> per_100g d'' = per_100g d' \<and>
     percent_dv d'' = percent_dv d'"
  using assms
  by (auto simp: finish_entry_def fdiv_def Let_def split: if_splits)

lemma finish_all_scaled:
  assumes "k \<noteq> 0" and "tw \<noteq> 0"
    and "finish_all exact tw s nd = Inr nd'"
  shows "\<exists>nd''. finish_all exact (k * tw) s (scaled k nd) = Inr nd'' \<and>
     reported nd'' = reported nd'"
  using assms(3)
proof (induction nd arbitrary: nd')
  case Nil
  then show ?case by (simp add: scaled_def reported_def)
next
  case (Cons item rest)
  obtain nid d where item: "item = (nid, d)" by (cases item)
  from Cons.prems item obtain d' rest' where
    d': "finish_entry exact tw s d = Inr d'" and
    rest': "finish_all exact tw s rest = Inr rest'" and
    nd': "nd' = (nid, d') # rest'"
    by (auto split: sum.splits)
  from finish_entry_scaled [OF assms(1,2) d'] obtain d'' where
    d'': "finish_entry exact (k * tw) s (d\<lparr>total_value := k * total_value d\<rparr>) = Inr d''"
      "per_serving d'' = per_serving d'" "per_100g d'' = per_100g d'"
      "percent_dv d'' = percent_dv d'"
    by blast
  from Cons.IH [OF rest'] obtain rest'' where
    rest'': "finish_all exact (k * tw) s (scaled k rest) = Inr rest''"
      "reported rest'' = reported rest'"
    by blast
  from d'' rest'' item nd' show ?case
    by (simp add: scaled_def reported_def)
qed

lemma scale_invariance:
  assumes "ingredients r \<noteq> []" and "\<forall>ri \<in> set (ingredients r). 0 < weight_grams ri"
    and "0 < k"
  shows "\<exists>nutrition nutrition'.
      calculate_nutrition exact r = Inr nutrition \<and>
      calculate_nutrition exact (scale_weights exact k r) = Inr nutrition' \<and>
      reported nutrition' = reported nutrition"
proof -
  from total_weight_pos [OF assms(1,2)] have tw: "0 < total_weight exact r" .
  with assms(3) have tw': "0 < total_weight exact (scale_weights exact k r)"
    by (simp add: total_weight_scale)
  obtain nutrition where n: "calculate_nutrition exact r = Inr nutrition"
    using calculate_nutrition_Inr by blast
  with tw have f: "finish_all exact (total_weight exact r) (serving_size r) (accumulate exact r) =
      Inr nutrition"
    by (simp add: calculate_nutrition_def)
  from assms(3) tw have "k \<noteq> 0" "total_weight exact r \<noteq> 0" by simp_all
  from finish_all_scaled [OF this f] obtain nutrition' where
    n': "finish_all exact (k * total_weight exact r) (serving_size r)
           (scaled k (accumulate exact r)) = Inr nutrition'"
      "reported nutrition' = reported nutrition"
    by blast
  have "serving_size (scale_weights exact k r) = serving_size r"
    by (simp add: scale_weights_def)
  with n' tw' \<open>k \<noteq> 0\<close> \<open>total_weight exact r \<noteq> 0\<close>
  have "calculate_nutrition exact (scale_weights exact k r) = Inr nutrition'"
    by (simp add: calculate_nutrition_def accumulate_scaled total_weight_scale)
  with n n'(2) show ?thesis by blast
qed


text \<open>
  Claim C6, as amended. In exact arithmetic, for a recipe with at least one ingredient
  whose weights are all positive and for every \<open>k > 0\<close>, multiplying every
  \<open>weight_grams\<close> by \<open>k\<close> leaves \<open>per_serving\<close>, \<open>per_100g\<close> and \<open>percent_dv\<close> of
  every nutrient unchanged. (In the float arithmetic of the program the rounded values can
  change: \<open>scale_invariance_counterexample\<close> below is 30 g of an ingredient with 1.245 mg
  of sodium per 100 g, reported as 1.24 per 100 g, and as 1.25 when the weight is
  multiplied by 3.)
\<close>

theorem scale_invariance_exact:
  "ingredients r \<noteq> [] \<and> (\<forall>ri \<in> set (ingredients r). 0 < weight_grams ri) \<and> 0 < k \<longrightarrow>
     (\<exists>nutrition nutrition'.
        calculate_nutrition exact r = Inr nutrition \<and>
        calculate_nutrition exact (scale_weights exact k r) = Inr nutrition' \<and>
        reported nutrition' = reported nutrition)"
  using scale_invariance by blast

theorem scale_invariance_exact_witness:
  "ingredients sweet_rice \<noteq> [] \<and>
   list_all (\<lambda>ri. 0 < weight_grams ri) (ingredients sweet_rice) \<and>
   reported (projr (calculate_nutrition exact (scale_weights exact 3 sweet_rice))) =
     reported (projr (calculate_nutrition exact sweet_rice))"
proof -
  have h: "ingredients sweet_rice \<noteq> []" "\<forall>ri \<in> set (ingredients sweet_rice). 0 < weight_grams ri"
    by (simp_all add: sweet_rice_def)
  with scale_invariance_exact [of sweet_rice 3] show ?thesis
    by (auto simp: list_all_iff)
qed

theorem scale_invariance_counterexample:
  "weight_grams (hd (ingredients (scale_weights binary64 3 thirty_grams))) = 90 \<and>
   per_100g (snd (hd (projr (calculate_nutrition binary64 thirty_grams)))) =
     Some (binary64 (124 / 100)) \<and>
   per_100g (snd (hd (projr (calculate_nutrition binary64 (scale_weights binary64 3 thirty_grams))))) =
     Some (binary64 (125 / 100)) \<and>
   per_serving (snd (hd (projr (calculate_nutrition binary64 thirty_grams)))) =
     Some (binary64 (124 / 100)) \<and>
   per_serving (snd (hd (projr (calculate_nutrition binary64 (scale_weights binary64 3 thirty_grams))))) =
     Some (binary64 (125 / 100)) \<and>
   binary64 (124 / 100) \<noteq> binary64 (125 / 100)"
  unfolding thirty_grams_nutrition ninety_grams_nutrition
  by (simp add: thirty_grams_def scale_weights_def brine_def fmul_def float_eval)

subsection \<open>The attribution of a HIGH nutrient\<close>


lemma find_append_cases:
  "find P (xs @ ys) = (case find P xs of None \<Rightarrow> find P ys | Some x \<Rightarrow> Some x)"
  by (induction xs) auto

lemma foldl_upd_find:
  "foldl (\<lambda>m row. m(key row \<mapsto> val row)) m0 rows nm =
     (case find (\<lambda>row. key row = nm) (rev rows) of None \<Rightarrow> m0 nm | Some row \<Rightarrow> Some (val row))"
  by (induction rows arbitrary: m0) (auto simp: find_append_cases split: option.splits)

lemma ing_nutrients_recorded:
  "ing_nutrients (ingredient_data_of fl ri) nm =
     map_option (\<lambda>row. \<lparr>abs_val = py_round fl (abs_contribution fl ri row) 4,
                         per_100g_ing = py_round fl (value_per_100g row) 4,
                         ing_unit = unit (inv_nutrient row)\<rparr>)
       (recorded_value (ri_ingredient ri) nm)"
  by (simp add: ingredient_data_of_def recorded_value_def foldl_upd_find split: option.splits)

lemma contributor_of_fields:
  assumes "contributor_of fl tw hv ing n = Inr c"
  shows "name_and_contribution c = (ing_name ing, py_round fl (abs_val n) 3)"
  using assms
  by (auto simp: contributor_of_def name_and_contribution_def split: sum.splits)

lemma contribs_loop_contributors:
  assumes "contribs_loop fl tw hv nm (map (ingredient_data_of fl) ris) = Inr cs"
  shows "map name_and_contribution cs = contributors fl ris nm"
  using assms
proof (induction ris arbitrary: cs)
  case Nil
  then show ?case by (simp add: contributors_def)
next
  case (Cons ri ris)
  have tl: "contributors fl (ri # ris) nm =
      (case recorded_value (ri_ingredient ri) nm of
          None \<Rightarrow> []
        | Some row \<Rightarrow>
            if 0 < py_round fl (abs_contribution fl ri row) 4
            then [(ingredient_name (ri_ingredient ri),
                   py_round fl (py_round fl (abs_contribution fl ri row) 4) 3)]
            else []) @ contributors fl ris nm"
    by (simp add: contributors_def)
  have nm: "ing_name (ingredient_data_of fl ri) = ingredient_name (ri_ingredient ri)"
    by (simp add: ingredient_data_of_def)
  show ?case
  proof (cases "recorded_value (ri_ingredient ri) nm")
    case None
    with Cons show ?thesis
      by (simp add: tl ing_nutrients_recorded)
  next
    case (Some row)
    show ?thesis
    proof (cases "0 < py_round fl (abs_contribution fl ri row) 4")
      case False
      with Some Cons show ?thesis
        by (simp add: tl ing_nutrients_recorded)
    next
      case True
      let ?n = "\<lparr>abs_val = py_round fl (abs_contribution fl ri row) 4,
                 per_100g_ing = py_round fl (value_per_100g row) 4,
                 ing_unit = unit (inv_nutrient row)\<rparr>"
      from Cons.prems Some True obtain c cs' where
        c: "contributor_of fl tw hv (ingredient_data_of fl ri) ?n = Inr c" and
        cs': "contribs_loop fl tw hv nm (map (ingredient_data_of fl) ris) = Inr cs'" and
        cs: "cs = c # cs'"
        by (auto simp: ing_nutrients_recorded split: sum.splits)
      from contributor_of_fields [OF c] nm Cons.IH [OF cs'] Some True cs show ?thesis
        by (simp add: tl)
    qed
  qed
qed

lemma insort_key_map:
  "insort_key g (f x) (map f xs) = map f (insort_key (\<lambda>y. g (f y)) x xs)"
  by (induction xs) simp_all

lemma sort_key_map:
  "sort_key g (map f xs) = map f (sort_key (\<lambda>y. g (f y)) xs)"
  by (induction xs) (simp_all add: insort_key_map)

lemma set_dict_set:
  "set (dict_set d k v) \<subseteq> insert (k, v) (set d)"
  "k \<in> fst ` set (dict_set d k v)"
  "fst ` set d \<subseteq> fst ` set (dict_set d k v)"
  by (auto simp: dict_set_def map_of_eq_None_iff image_iff split: if_splits) force+

lemma attribution_loop_entries:
  assumes "attribution_loop fl tw (map (ingredient_data_of fl) (ingredients r)) acc highs = Inr attribution"
    and "\<forall>item \<in> set acc. entry_ok fl r hs item"
    and "set highs \<subseteq> set hs"
  shows "\<forall>item \<in> set attribution. entry_ok fl r hs item"
  using assms
proof (induction highs arbitrary: acc)
  case Nil
  then show ?case by simp
next
  case (Cons high rest)
  from Cons.prems(1) obtain contribs where
    cl: "contribs_loop fl tw (fop_value high) (fop_nutrient high)
           (map (ingredient_data_of fl) (ingredients r)) = Inr contribs"
    by (auto split: sum.splits)
  let ?entry = "\<lparr>current_per_100g = py_round fl (fop_value high) 3,
                threshold = (case THRESHOLDS (fop_nutrient high) of
                               None \<Rightarrow> 0 | Some (t, u) \<Rightarrow> t),
                attr_unit = fop_unit high,
                top_contributors = take 5 (sort_key (\<lambda>c. - contribution_abs c) contribs)\<rparr>"
  from Cons.prems(1) cl have
    rest: "attribution_loop fl tw (map (ingredient_data_of fl) (ingredients r))
             (dict_set acc (fop_nutrient high) ?entry) rest = Inr attribution"
    by simp
  have "map name_and_contribution (sort_key (\<lambda>c. - contribution_abs c) contribs) =
        sort_key (\<lambda>(n, a). - a) (map name_and_contribution contribs)"
    by (simp add: sort_key_map name_and_contribution_def)
  with contribs_loop_contributors [OF cl]
  have "map name_and_contribution (take 5 (sort_key (\<lambda>c. - contribution_abs c) contribs)) =
        take 5 (sort_key (\<lambda>(n, a). - a) (contributors fl (ingredients r) (fop_nutrient high)))"
    by (simp only: take_map [symmetric])
  moreover have "sorted_wrt (\<lambda>a b. contribution_abs b \<le> contribution_abs a)
      (take 5 (sort_key (\<lambda>c. - contribution_abs c) contribs))"
  proof -
    have "sorted (map (\<lambda>c. - contribution_abs c) (sort_key (\<lambda>c. - contribution_abs c) contribs))"
      by (rule sorted_sort_key)
    then have "sorted_wrt (\<lambda>a b. contribution_abs b \<le> contribution_abs a)
        (sort_key (\<lambda>c. - contribution_abs c) contribs)"
      by (simp add: sorted_map)
    then show ?thesis by (rule sorted_wrt_take)
  qed
  ultimately have new: "entry_ok fl r hs (fop_nutrient high, ?entry)"
    using Cons.prems(3) by (simp add: entry_ok_def)
  have "\<forall>item \<in> set (dict_set acc (fop_nutrient high) ?entry). entry_ok fl r hs item"
    using set_dict_set(1) [where d = acc and k = "fop_nutrient high" and v = ?entry] new Cons.prems(2) by blast
  from Cons.IH [OF rest this] Cons.prems(3) show ?case by simp
qed

lemma attribution_loop_keys:
  assumes "attribution_loop fl tw ids acc highs = Inr attribution"
  shows "fst ` set acc \<union> fop_nutrient ` set highs \<subseteq> fst ` set attribution"
  using assms
proof (induction highs arbitrary: acc)
  case Nil
  then show ?case by simp
next
  case (Cons high rest)
  from Cons.prems obtain e where
    rest: "attribution_loop fl tw ids (dict_set acc (fop_nutrient high) e) rest = Inr attribution"
    by (auto split: sum.splits)
  from Cons.IH [OF rest] set_dict_set(2,3) [where d = acc and k = "fop_nutrient high" and v = e]
  show ?case by auto
qed


lemma contributor_of_Inr:
  assumes "tw \<noteq> 0" and "0 < fl (1 / 1000)"
  shows "\<exists>c. contributor_of fl tw hv ing n = Inr c"
proof -
  from assms(2) have "max (fl (fmul fl hv tw / 100)) (fl (1 / 1000)) \<noteq> 0"
    by (simp add: max_def)
  with assms(1) show ?thesis
    by (simp add: contributor_of_def fdiv_def)
qed

lemma contribs_loop_Inr:
  assumes "tw \<noteq> 0" and "0 < fl (1 / 1000)"
  shows "\<exists>cs. contribs_loop fl tw hv nm ids = Inr cs"
proof (induction ids)
  case Nil
  show ?case by simp
next
  case (Cons ing rest)
  then obtain cs where cs: "contribs_loop fl tw hv nm rest = Inr cs" by blast
  show ?case
  proof (cases "ing_nutrients ing nm")
    case None
    with cs show ?thesis by simp
  next
    case (Some n)
    from contributor_of_Inr [where fl = fl and tw = tw, OF assms] obtain c where
      "contributor_of fl tw hv ing n = Inr c" by blast
    with Some cs show ?thesis by simp
  qed
qed

lemma attribution_loop_Inr:
  assumes "tw \<noteq> 0" and "0 < fl (1 / 1000)"
  shows "\<exists>attribution. attribution_loop fl tw ids acc highs = Inr attribution"
proof (induction highs arbitrary: acc)
  case Nil
  show ?case by simp
next
  case (Cons high rest)
  from contribs_loop_Inr [where fl = fl and tw = tw, OF assms] obtain cs where
    "contribs_loop fl tw (fop_value high) (fop_nutrient high) ids = Inr cs" by blast
  with Cons show ?case by simp
qed

lemma reformulate_attribution_Inr:
  assumes "0 < fl (1 / 1000)"
  shows "\<exists>attribution. reformulate_attribution fl r fop = Inr attribution"
  unfolding reformulate_attribution_def Let_def
  using attribution_loop_Inr [where fl = fl, OF _ assms] by simp

lemma reformulate_attribution_entries:
  assumes "reformulate_attribution fl r fop = Inr attribution"
  shows "\<forall>item \<in> set attribution.
           entry_ok fl r (filter (\<lambda>ind. level ind = ''HIGH'') fop) item"
    and "fop_nutrient ` set (filter (\<lambda>ind. level ind = ''HIGH'') fop) \<subseteq> fst ` set attribution"
proof -
  let ?highs = "filter (\<lambda>ind. level ind = ''HIGH'') fop"
  let ?tw = "if total_weight fl r = 0 then 1 else total_weight fl r"
  show "\<forall>item \<in> set attribution. entry_ok fl r ?highs item"
  proof (cases "?highs = []")
    case True
    with assms show ?thesis by (simp add: reformulate_attribution_def)
  next
    case False
    with assms have "attribution_loop fl ?tw (map (ingredient_data_of fl) (ingredients r)) []
        ?highs = Inr attribution"
      by (simp add: reformulate_attribution_def Let_def)
    from attribution_loop_entries [OF this] show ?thesis by simp
  qed
  show "fop_nutrient ` set ?highs \<subseteq> fst ` set attribution"
  proof (cases "?highs = []")
    case True
    then show ?thesis by simp
  next
    case False
    with assms have "attribution_loop fl ?tw (map (ingredient_data_of fl) (ingredients r)) []
        ?highs = Inr attribution"
      by (simp add: reformulate_attribution_def Let_def)
    from attribution_loop_keys [OF this] show ?thesis by simp
  qed
qed



lemma two_salts_fop:
  "get_fop_indicators binary64 (init_checker two_salts
     [(9, \<lparr>nutrient = sodium, total_value = 1400, per_serving = Some 700,
               per_100g = Some 700, percent_dv = Some 35\<rparr>)]) =
   [\<lparr>fop_nutrient = ''Total Fat'', fop_value = 0, fop_unit = ''g'',
     level = ''LOW'', color = ''green''\<rparr>,
  \<lparr>fop_nutrient = ''Saturated Fat'', fop_value = 0, fop_unit = ''g'',
     level = ''LOW'', color = ''green''\<rparr>,
  \<lparr>fop_nutrient = ''Total Sugars'', fop_value = 0, fop_unit = ''g'',
     level = ''LOW'', color = ''green''\<rparr>,
  \<lparr>fop_nutrient = ''Sodium'', fop_value = 700, fop_unit = ''mg'',
     level = ''HIGH'', color = ''red''\<rparr>]"
  apply (simp add: fop_defs sodium_def float_ops)
  apply (simp add: float_eval)
  done

lemma two_salts_attribution:
  "reformulate_attribution binary64 two_salts
     [\<lparr>fop_nutrient = ''Total Fat'', fop_value = 0, fop_unit = ''g'',
       level = ''LOW'', color = ''green''\<rparr>,
      \<lparr>fop_nutrient = ''Saturated Fat'', fop_value = 0, fop_unit = ''g'',
       level = ''LOW'', color = ''green''\<rparr>,
      \<lparr>fop_nutrient = ''Total Sugars'', fop_value = 0, fop_unit = ''g'',
       level = ''LOW'', color = ''green''\<rparr>,
      \<lparr>fop_nutrient = ''Sodium'', fop_value = 700, fop_unit = ''mg'',
       level = ''HIGH'', color = ''red''\<rparr>] =
   Inr [(''Sodium'',
       \<lparr>current_per_100g = 700, threshold = 600, attr_unit = ''mg'',
          top_contributors =
            [\<lparr>contrib_ingredient = ''Salt A'', contrib_weight_grams = 100,
                contribution_abs = 700, contribution_per_100g = 350,
                pct_of_total = 50\<rparr>,
             \<lparr>contrib_ingredient = ''Salt B'', contrib_weight_grams = 100,
                contribution_abs = 700, contribution_per_100g = 350,
                pct_of_total = 50\<rparr>]\<rparr>)]"
  apply (simp add: attribution_defs total_weight_def example_defs float_ops)
  apply (simp add: float_eval)
  done

lemma two_salts_api_reformulate:
  "api_reformulate binary64 two_salts =
   Inr [(''Sodium'',
       \<lparr>current_per_100g = 700, threshold = 600, attr_unit = ''mg'',
          top_contributors =
            [\<lparr>contrib_ingredient = ''Salt A'', contrib_weight_grams = 100,
                contribution_abs = 700, contribution_per_100g = 350,
                pct_of_total = 50\<rparr>,
             \<lparr>contrib_ingredient = ''Salt B'', contrib_weight_grams = 100,
                contribution_abs = 700, contribution_per_100g = 350,
                pct_of_total = 50\<rparr>]\<rparr>)]"
  unfolding api_reformulate_def two_salts_nutrition sum.case two_salts_fop
  by (rule two_salts_attribution)


text \<open>
  Claim C9, as amended. For each nutrient rated HIGH the attribution has an entry, and
  every entry is for such a nutrient. Its top contributors are, by name and reported
  contribution, the first 5 of the list of contributors sorted in descending order of the
  reported contribution (equal ones in recipe order), where the contributors are the
  ingredients that have a recorded value for the nutrient and whose contribution
  \<open>(weight_grams / 100) * value_per_100g\<close>, rounded to 4 places, is positive, and the
  reported contribution is that value rounded to 3 places. So at most 5 are reported, in
  descending order of the reported contribution. No error is raised. (As stated, the
  claim sorts by the unrounded contribution: \<open>attribution_order_counterexample\<close> below
  has two salts of 700.0001 and 700.0002 mg, both reported as 700.0, listed in recipe
  order, the smaller first.)
\<close>

theorem attribution_top_contributors:
  "(reformulate_attribution fl r fop = Inr attribution \<longrightarrow>
      (\<forall>(nm, entry) \<in> set attribution.
         (\<exists>high \<in> set fop. level high = ''HIGH'' \<and> fop_nutrient high = nm) \<and>
         map name_and_contribution (top_contributors entry) =
           take 5 (sort_key (\<lambda>(n, a). - a) (contributors fl (ingredients r) nm)) \<and>
         length (top_contributors entry) \<le> 5 \<and>
         sorted_wrt (\<lambda>a b. contribution_abs b \<le> contribution_abs a) (top_contributors entry)) \<and>
      (\<forall>high \<in> set fop. level high = ''HIGH'' \<longrightarrow> fop_nutrient high \<in> fst ` set attribution)) \<and>
   (0 < fl (1 / 1000) \<longrightarrow> (\<exists>attribution. reformulate_attribution fl r fop = Inr attribution)) \<and>
   api_reformulate fl r =
     (case calculate_nutrition fl r of
        Inl e \<Rightarrow> Inl e
      | Inr nutrition \<Rightarrow>
          reformulate_attribution fl r (get_fop_indicators fl (init_checker r nutrition)))"
proof (intro conjI impI)
  assume a: "reformulate_attribution fl r fop = Inr attribution"
  from reformulate_attribution_entries(1) [OF a]
  show "\<forall>(nm, entry) \<in> set attribution.
         (\<exists>high \<in> set fop. level high = ''HIGH'' \<and> fop_nutrient high = nm) \<and>
         map name_and_contribution (top_contributors entry) =
           take 5 (sort_key (\<lambda>(n, a). - a) (contributors fl (ingredients r) nm)) \<and>
         length (top_contributors entry) \<le> 5 \<and>
         sorted_wrt (\<lambda>a b. contribution_abs b \<le> contribution_abs a) (top_contributors entry)"
    by (fastforce simp: entry_ok_def)
  from reformulate_attribution_entries(2) [OF a]
  show "\<forall>high \<in> set fop. level high = ''HIGH'' \<longrightarrow> fop_nutrient high \<in> fst ` set attribution"
    by auto
next
  assume "0 < fl (1 / 1000)"
  then show "\<exists>attribution. reformulate_attribution fl r fop = Inr attribution"
    by (rule reformulate_attribution_Inr)
next
  show "api_reformulate fl r =
     (case calculate_nutrition fl r of
        Inl e \<Rightarrow> Inl e
      | Inr nutrition \<Rightarrow>
          reformulate_attribution fl r (get_fop_indicators fl (init_checker r nutrition)))"
    by (simp add: api_reformulate_def)
qed

theorem attribution_top_contributors_witness:
  "0 < binary64 (1 / 1000) \<and>
   map fst (projr (api_reformulate binary64 two_salts)) = [''Sodium''] \<and>
   take 5 (sort_key (\<lambda>(n, a). - a) (contributors binary64 (ingredients two_salts) ''Sodium'')) =
     [(''Salt A'', 700), (''Salt B'', 700)]"
proof -
  let ?fop = "[\<lparr>fop_nutrient = ''Total Fat'', fop_value = 0, fop_unit = ''g'',
       level = ''LOW'', color = ''green''\<rparr>,
      \<lparr>fop_nutrient = ''Saturated Fat'', fop_value = 0, fop_unit = ''g'',
       level = ''LOW'', color = ''green''\<rparr>,
      \<lparr>fop_nutrient = ''Total Sugars'', fop_value = 0, fop_unit = ''g'',
       level = ''LOW'', color = ''green''\<rparr>,
      \<lparr>fop_nutrient = ''Sodium'', fop_value = 700, fop_unit = ''mg'',
       level = ''HIGH'', color = ''red''\<rparr>]"
  let ?entry = "\<lparr>current_per_100g = 700, threshold = 600, attr_unit = ''mg'',
          top_contributors =
            [\<lparr>contrib_ingredient = ''Salt A'', contrib_weight_grams = 100,
                contribution_abs = 700, contribution_per_100g = 350,
                pct_of_total = 50\<rparr>,
             \<lparr>contrib_ingredient = ''Salt B'', contrib_weight_grams = 100,
                contribution_abs = 700, contribution_per_100g = 350,
                pct_of_total = 50\<rparr>]\<rparr>"
  have p: "0 < binary64 (1 / 1000)"
    by (simp add: float_eval)
  have k: "map fst (projr (api_reformulate binary64 two_salts)) = [''Sodium'']"
    by (simp add: two_salts_api_reformulate)
  from attribution_top_contributors [of binary64 two_salts ?fop "[(''Sodium'', ?entry)]"]
    two_salts_attribution
  have "map name_and_contribution (top_contributors ?entry) =
      take 5 (sort_key (\<lambda>(n, a). - a) (contributors binary64 (ingredients two_salts) ''Sodium''))"
    by simp
  then have "take 5 (sort_key (\<lambda>(n, a). - a)
       (contributors binary64 (ingredients two_salts) ''Sodium'')) =
     [(''Salt A'', 700), (''Salt B'', 700)]"
    by (simp add: name_and_contribution_def)
  with p k show ?thesis by simp
qed


theorem attribution_order_counterexample:
  "fst (hd (projr (api_reformulate binary64 two_salts))) = ''Sodium'' \<and>
   map name_and_contribution
     (top_contributors (snd (hd (projr (api_reformulate binary64 two_salts))))) =
     [(''Salt A'', 700), (''Salt B'', 700)] \<and>
   ingredients two_salts = [salt_a, salt_b] \<and>
   nutrients (ri_ingredient salt_a) = [salt_a_row] \<and>
   nutrients (ri_ingredient salt_b) = [salt_b_row] \<and>
   abs_contribution binary64 salt_a salt_a_row < abs_contribution binary64 salt_b salt_b_row"
proof -
  have "abs_contribution binary64 salt_a salt_a_row < abs_contribution binary64 salt_b salt_b_row"
    apply (simp add: abs_contribution_def example_defs float_ops)
    apply (simp add: float_eval)
    done
  moreover have "ingredients two_salts = [salt_a, salt_b]"
    "nutrients (ri_ingredient salt_a) = [salt_a_row]"
    "nutrients (ri_ingredient salt_b) = [salt_b_row]"
    by (simp_all add: two_salts_def salt_a_def salt_b_def)
  ultimately show ?thesis
    unfolding two_salts_api_reformulate by (simp add: name_and_contribution_def)
qed

end
